theory Spec2Isabelle
  imports Complex_Main
begin

section \<open>Python values, exceptions and the observable world\<close>

text \<open>
  The values that travel through the sinks: keyword arguments of the meters, the parsed
  JSON of a backend response, the message identifier. A dict with string keys is an
  association list read with \<open>map_of\<close>. Python's \<open>None\<close> and JSON's \<open>null\<close> are
  both \<open>PNone\<close>.
\<close>

datatype pyval =
    PNone
  | PBool bool
  | PInt int
  | PFloat rat
  | PStr string
  | PList "pyval list"
  | PDict "(string \<times> pyval) list"

text \<open>Truth value testing (\<open>if not x\<close>, \<open>x or y\<close>).\<close>

fun truthy :: "pyval \<Rightarrow> bool" where
  "truthy PNone = False"
| "truthy (PBool b) = b"
| "truthy (PInt n) = (n \<noteq> 0)"
| "truthy (PFloat r) = (r \<noteq> 0)"
| "truthy (PStr s) = (s \<noteq> [])"
| "truthy (PList xs) = (xs \<noteq> [])"
| "truthy (PDict d) = (d \<noteq> [])"

text \<open>\<open>v == n\<close> for an integer literal \<open>n\<close>.\<close>

fun py_eq_int :: "pyval \<Rightarrow> int \<Rightarrow> bool" where
  "py_eq_int (PInt m) n = (m = n)"
| "py_eq_int (PFloat r) n = (r = of_int n)"
| "py_eq_int (PBool b) n = ((if b then 1 else 0) = n)"
| "py_eq_int _ n = False"

text \<open>
  Exceptions, all subclasses of \<open>Exception\<close>. \<open>str_of\<close> is \<open>str(e)\<close>: the message,
  and for a \<open>KeyError\<close> the quoted key.
\<close>

datatype error =
    KeyError string
  | TypeError string
  | AttributeError string
  | RequestError string
  | ValueError string

fun str_of :: "error \<Rightarrow> string" where
  "str_of (KeyError k) = [CHR 0x27] @ k @ [CHR 0x27]"
| "str_of (TypeError m) = m"
| "str_of (AttributeError m) = m"
| "str_of (RequestError m) = m"
| "str_of (ValueError m) = m"

text \<open>\<open>d[k]\<close> on a parsed JSON value: only a dict can be indexed by a string.\<close>

fun py_getitem :: "pyval \<Rightarrow> string \<Rightarrow> error + pyval" where
  "py_getitem (PDict d) k = (case map_of d k of None \<Rightarrow> Inl (KeyError k) | Some v \<Rightarrow> Inr v)"
| "py_getitem _ k = Inl (TypeError ''indices must be integers or the object is not subscriptable'')"

text \<open>
  \<open>v.get(k)\<close> on a parsed JSON value: only a dict has the method, every other value
  raises \<open>AttributeError\<close>.
\<close>

definition dict_get :: "(string \<times> pyval) list \<Rightarrow> string \<Rightarrow> pyval" where
  "dict_get d k = (case map_of d k of None \<Rightarrow> PNone | Some v \<Rightarrow> v)"

fun py_get :: "pyval \<Rightarrow> string \<Rightarrow> error + pyval" where
  "py_get (PDict d) k = Inr (dict_get d k)"
| "py_get _ k = Inl (AttributeError ''object has no attribute get'')"

text \<open>
  \<open>k in v\<close> for a string \<open>k\<close> and a parsed JSON value \<open>v\<close>: a key of a dict, an
  element of a list, a substring of a string; \<open>None\<close>, a bool and a number are not
  iterable and raise \<open>TypeError\<close>.
\<close>

fun substring :: "string \<Rightarrow> string \<Rightarrow> bool" where
  "substring k [] = (k = [])"
| "substring k (c # cs) = (take (length k) (c # cs) = k \<or> substring k cs)"

fun py_in :: "string \<Rightarrow> pyval \<Rightarrow> error + bool" where
  "py_in k (PDict d) = Inr (map_of d k \<noteq> None)"
| "py_in k (PList xs) = Inr (PStr k \<in> set xs)"
| "py_in k (PStr s) = Inr (substring k s)"
| "py_in k _ = Inl (TypeError ''argument is not iterable'')"

text \<open>
  A request to the backend, with the parts the sinks fill in: the bot token, the
  destination (channel or chat), the message identifier and the content. The fixed
  parts (URL prefix, user agent, parse mode) are left out.
\<close>

datatype request =
    CreateMessage pyval pyval string
  | EditMessage pyval pyval pyval string
  | DeleteMessage pyval pyval pyval

text \<open>Whether a request is a create request.\<close>

fun is_create :: "request \<Rightarrow> bool" where
  "is_create (CreateMessage token dest content) = True"
| "is_create (EditMessage token dest mid content) = False"
| "is_create (DeleteMessage token dest mid) = False"

text \<open>
  What a synchronous HTTP call gives: the call itself raises, or the response's
  \<open>json()\<close> raises, or the body parses to a JSON value of any kind (an object, but
  also a list, a string, a number, a bool or \<open>null\<close>).
\<close>

datatype reply =
    SendFails error
  | BadBody error
  | Body pyval

text \<open>
  The environment, as two oracles: the reply to the k-th synchronous HTTP call, and
  whether the k-th call of \<open>self.submit\<close> raises. \<open>submit\<close> is inherited from
  \<open>MonoWorker\<close> (\<open>tqdm/contrib/utils_worker.py\<close>), which is not among the sources; the
  sinks guard each call with \<open>try\<close>/\<open>except\<close>, so the model lets the environment
  decide.
\<close>

record env =
  http_reply :: "nat \<Rightarrow> reply"
  submit_fails :: "nat \<Rightarrow> error option"

text \<open>
  Everything a sink does that can be observed from outside: lines written with
  \<open>tqdm_auto.write\<close>, warnings issued with \<open>warn\<close>, the synchronous HTTP calls made,
  the requests passed to \<open>self.submit\<close> (in call order), and the number of HTTP
  sessions opened.
\<close>

record world =
  display :: "string list"
  warnings :: "string list"
  http :: "request list"
  submitted :: "request list"
  sessions :: nat

definition tqdm_write :: "string \<Rightarrow> world \<Rightarrow> world" where
  "tqdm_write s w = w\<lparr>display := display w @ [s]\<rparr>"

definition warn :: "string \<Rightarrow> world \<Rightarrow> world" where
  "warn s w = w\<lparr>warnings := warnings w @ [s]\<rparr>"

definition http_call :: "env \<Rightarrow> request \<Rightarrow> world \<Rightarrow> reply \<times> world" where
  "http_call e r w = (http_reply e (length (http w)), w\<lparr>http := http w @ [r]\<rparr>)"

definition submit :: "env \<Rightarrow> request \<Rightarrow> world \<Rightarrow> (error + unit) \<times> world" where
  "submit e r w =
     (let w' = w\<lparr>submitted := submitted w @ [r]\<rparr> in
      case submit_fails e (length (submitted w)) of
        None \<Rightarrow> (Inr (), w')
      | Some x \<Rightarrow> (Inl x, w'))"

section \<open>Text normalisation in \<open>write\<close>\<close>

text \<open>
  Both sinks start \<open>write(s)\<close> with
  \<^verbatim>\<open>
    if not s:
        s = "..."
    s = s.replace('\r', '').strip()
  \<close>
  The argument is a string or \<open>None\<close>. A \<open>char\<close> stands for the code point of the
  same number; \<open>str.strip()\<close> removes the code points for which \<open>str.isspace\<close> holds
  (below 256: 9 to 13, 28 to 32, 133 and 160).
\<close>

definition is_space :: "char \<Rightarrow> bool" where
  "is_space c =
     (let n = (of_char c :: nat) in
      (9 \<le> n \<and> n \<le> 13) \<or> (28 \<le> n \<and> n \<le> 32) \<or> n = 133 \<or> n = 160)"

definition strip :: "string \<Rightarrow> string" where
  "strip s = rev (dropWhile is_space (rev (dropWhile is_space s)))"

definition CR :: char where
  "CR = CHR 0x0D"

definition remove_cr :: "string \<Rightarrow> string" where
  "remove_cr s = filter (\<lambda>c. c \<noteq> CR) s"

definition placeholder :: "string option \<Rightarrow> string" where
  "placeholder s0 = (case s0 of None \<Rightarrow> ''...'' | Some s \<Rightarrow> if s = [] then ''...'' else s)"

definition normalize :: "string option \<Rightarrow> string" where
  "normalize s0 = strip (remove_cr (placeholder s0))"

text \<open>The content sent: the text between two backquotes.\<close>

definition quoted :: "string \<Rightarrow> string" where
  "quoted s = [CHR 0x60] @ s @ [CHR 0x60]"

section \<open>The Discord sink\<close>

text \<open>
  \<open>d_message_id\<close> is the attribute \<open>_message_id\<close>: \<open>None\<close> while the attribute does
  not exist.
\<close>

record discord =
  d_token :: pyval
  channel_id :: pyval
  d_text :: string
  d_message_id :: "pyval option"

text \<open>
  The property \<open>message_id\<close>: the recorded identifier when there is one; otherwise a
  create request, whose failure is written to the display and whose identifier, when the
  response has one, is recorded. It returns \<open>None\<close> when no identifier came back.
  The \<open>try\<close> covers the request and \<open>json()\<close> only: \<open>"id" in res\<close> and \<open>res["id"]\<close>
  stand in the \<open>else\<close> block, and what they raise leaves the property.
\<close>

definition DiscordIO_message_id ::
  "env \<Rightarrow> discord \<Rightarrow> world \<Rightarrow> (error + pyval) \<times> discord \<times> world" where
  "DiscordIO_message_id e io w =
     (case d_message_id io of
        Some v \<Rightarrow> (Inr v, io, w)
      | None \<Rightarrow>
          (case http_call e (CreateMessage (d_token io) (channel_id io) (quoted (d_text io))) w of
             (SendFails x, w1) \<Rightarrow> (Inr PNone, io, tqdm_write (str_of x) w1)
           | (BadBody x, w1) \<Rightarrow> (Inr PNone, io, tqdm_write (str_of x) w1)
           | (Body res, w1) \<Rightarrow>
               (case py_in ''id'' res of
                  Inl x \<Rightarrow> (Inl x, io, w1)
                | Inr False \<Rightarrow> (Inr PNone, io, w1)
                | Inr True \<Rightarrow>
                    (case py_getitem res ''id'' of
                       Inl x \<Rightarrow> (Inl x, io, w1)
                     | Inr v \<Rightarrow> (Inr v, io\<lparr>d_message_id := Some v\<rparr>, w1)))))"

text \<open>The constructor reads the property with no \<open>try\<close> around it.\<close>

definition DiscordIO_init :: "env \<Rightarrow> pyval \<Rightarrow> pyval \<Rightarrow> world \<Rightarrow> (error + discord) \<times> world" where
  "DiscordIO_init e token channel w =
     (case DiscordIO_message_id e
         \<lparr>d_token = token, channel_id = channel, d_text = ''DiscordIO'', d_message_id = None\<rparr> w of
        (Inl x, io, w1) \<Rightarrow> (Inl x, w1)
      | (Inr _, io, w1) \<Rightarrow> (Inr io, w1))"

text \<open>The \<open>try\<close> block of \<open>write\<close>: build the edit request and submit it.\<close>

definition DiscordIO_write_try :: "env \<Rightarrow> discord \<Rightarrow> pyval \<Rightarrow> string \<Rightarrow> world \<Rightarrow> (error + unit) \<times> world" where
  "DiscordIO_write_try e io mid s w =
     submit e (EditMessage (d_token io) (channel_id io) mid (quoted s)) w"

text \<open>
  \<open>write\<close> reads the property before its \<open>try\<close> block, so what the property raises
  goes to the caller.
\<close>

definition DiscordIO_write :: "env \<Rightarrow> string option \<Rightarrow> discord \<Rightarrow> world \<Rightarrow> (error + discord) \<times> world" where
  "DiscordIO_write e s0 io w =
     (let s = normalize s0 in
      if s = d_text io then (Inr io, w)
      else
        (case DiscordIO_message_id e io w of
           (Inl x, io1, w1) \<Rightarrow> (Inl x, w1)
         | (Inr mid, io1, w1) \<Rightarrow>
             if mid = PNone then (Inr io1, w1)
             else
               (let io2 = io1\<lparr>d_text := s\<rparr> in
                case DiscordIO_write_try e io2 mid s w1 of
                  (Inl x, w2) \<Rightarrow> (Inr io2, tqdm_write (str_of x) w2)
                | (Inr _, w2) \<Rightarrow> (Inr io2, w2))))"

text \<open>
  The \<open>try\<close> block of \<open>delete\<close>: the URL is built first, which reads the property
  \<open>message_id\<close> (inside the \<open>try\<close>, so what it raises is caught here), then the
  request is submitted.
\<close>

definition DiscordIO_delete_try :: "env \<Rightarrow> discord \<Rightarrow> world \<Rightarrow> (error + unit) \<times> discord \<times> world" where
  "DiscordIO_delete_try e io w =
     (case DiscordIO_message_id e io w of
        (Inl x, io1, w1) \<Rightarrow> (Inl x, io1, w1)
      | (Inr mid, io1, w1) \<Rightarrow>
          (case submit e (DeleteMessage (d_token io1) (channel_id io1) mid) w1 of
             (r, w2) \<Rightarrow> (r, io1, w2)))"

definition DiscordIO_delete :: "env \<Rightarrow> discord \<Rightarrow> world \<Rightarrow> (error + discord) \<times> world" where
  "DiscordIO_delete e io w =
     (case DiscordIO_delete_try e io w of
        (Inl x, io1, w1) \<Rightarrow> (Inr io1, tqdm_write (str_of x) w1)
      | (Inr _, io1, w1) \<Rightarrow> (Inr io1, w1))"

section \<open>The Telegram sink\<close>

text \<open>
  \<open>t_message_id\<close> is the attribute \<open>message_id\<close>, which the constructor sets only on
  its \<open>else\<close> path: \<open>None\<close> while the attribute does not exist, and reading it then
  raises \<open>AttributeError\<close>.
\<close>

record telegram =
  t_token :: pyval
  chat_id :: pyval
  t_text :: string
  t_message_id :: "pyval option"

definition too_many_requests :: string where
  "too_many_requests = ''Too Many Requests. See https://core.telegram.org/bots/faq#my-bot-is-hitting-limits-how-do-i-avoid-this''"

definition TelegramIO_init :: "env \<Rightarrow> pyval \<Rightarrow> pyval \<Rightarrow> world \<Rightarrow> (error + telegram) \<times> world" where
  "TelegramIO_init e token chat w =
     (let io = \<lparr>t_token = token, chat_id = chat, t_text = ''TelegramIO'', t_message_id = None\<rparr> in
      case http_call e (CreateMessage token chat (quoted ''TelegramIO''))
             (w\<lparr>sessions := sessions w + 1\<rparr>) of
        (SendFails x, w1) \<Rightarrow> (Inr io, tqdm_write (str_of x) w1)
      | (BadBody x, w1) \<Rightarrow> (Inl x, w1)
      | (Body res, w1) \<Rightarrow>
          (case py_get res ''error_code'' of
             Inl x \<Rightarrow> (Inl x, w1)
           | Inr code \<Rightarrow>
               (let w2 = (if py_eq_int code 429 then warn too_many_requests w1 else w1) in
                case py_getitem res ''result'' of
                  Inl x \<Rightarrow> (Inl x, w2)
                | Inr r \<Rightarrow>
                    (case py_getitem r ''message_id'' of
                       Inl x \<Rightarrow> (Inl x, w2)
                     | Inr m \<Rightarrow> (Inr (io\<lparr>t_message_id := Some m\<rparr>), w2)))))"

definition no_message_id :: error where
  "no_message_id = AttributeError ''TelegramIO object has no attribute message_id''"

text \<open>
  The \<open>try\<close> block of \<open>write\<close>: the arguments of \<open>self.submit\<close> are evaluated first,
  among them \<open>self.message_id\<close>.
\<close>

definition TelegramIO_write_try :: "env \<Rightarrow> telegram \<Rightarrow> string \<Rightarrow> world \<Rightarrow> (error + unit) \<times> world" where
  "TelegramIO_write_try e io s w =
     (case t_message_id io of
        None \<Rightarrow> (Inl no_message_id, w)
      | Some m \<Rightarrow> submit e (EditMessage (t_token io) (chat_id io) m (quoted s)) w)"

definition TelegramIO_write :: "env \<Rightarrow> string option \<Rightarrow> telegram \<Rightarrow> world \<Rightarrow> (error + telegram) \<times> world" where
  "TelegramIO_write e s0 io w =
     (let s = normalize s0 in
      if s = t_text io then (Inr io, w)
      else
        (let io1 = io\<lparr>t_text := s\<rparr> in
         case TelegramIO_write_try e io1 s w of
           (Inl x, w1) \<Rightarrow> (Inr io1, tqdm_write (str_of x) w1)
         | (Inr _, w1) \<Rightarrow> (Inr io1, w1)))"

definition TelegramIO_delete_try :: "env \<Rightarrow> telegram \<Rightarrow> world \<Rightarrow> (error + unit) \<times> world" where
  "TelegramIO_delete_try e io w =
     (case t_message_id io of
        None \<Rightarrow> (Inl no_message_id, w)
      | Some m \<Rightarrow> submit e (DeleteMessage (t_token io) (chat_id io) m) w)"

definition TelegramIO_delete :: "env \<Rightarrow> telegram \<Rightarrow> world \<Rightarrow> (error + telegram) \<times> world" where
  "TelegramIO_delete e io w =
     (case TelegramIO_delete_try e io w of
        (Inl x, w1) \<Rightarrow> (Inr io, tqdm_write (str_of x) w1)
      | (Inr _, w1) \<Rightarrow> (Inr io, w1))"

section \<open>Sequences of calls on a sink\<close>

datatype call = Write "string option" | Delete

fun DiscordIO_call :: "env \<Rightarrow> call \<Rightarrow> discord \<Rightarrow> world \<Rightarrow> (error + discord) \<times> world" where
  "DiscordIO_call e (Write s) io w = DiscordIO_write e s io w"
| "DiscordIO_call e Delete io w = DiscordIO_delete e io w"

fun TelegramIO_call :: "env \<Rightarrow> call \<Rightarrow> telegram \<Rightarrow> world \<Rightarrow> (error + telegram) \<times> world" where
  "TelegramIO_call e (Write s) io w = TelegramIO_write e s io w"
| "TelegramIO_call e Delete io w = TelegramIO_delete e io w"

text \<open>A caller that makes the calls one after the other; an exception would end it.\<close>

fun DiscordIO_calls :: "env \<Rightarrow> call list \<Rightarrow> discord \<Rightarrow> world \<Rightarrow> (error + discord) \<times> world" where
  "DiscordIO_calls e [] io w = (Inr io, w)"
| "DiscordIO_calls e (c # cs) io w =
     (case DiscordIO_call e c io w of
        (Inl x, w1) \<Rightarrow> (Inl x, w1)
      | (Inr io1, w1) \<Rightarrow> DiscordIO_calls e cs io1 w1)"

fun TelegramIO_calls :: "env \<Rightarrow> call list \<Rightarrow> telegram \<Rightarrow> world \<Rightarrow> (error + telegram) \<times> world" where
  "TelegramIO_calls e [] io w = (Inr io, w)"
| "TelegramIO_calls e (c # cs) io w =
     (case TelegramIO_call e c io w of
        (Inl x, w1) \<Rightarrow> (Inl x, w1)
      | (Inr io1, w1) \<Rightarrow> TelegramIO_calls e cs io1 w1)"

section \<open>The meters that own a sink\<close>

text \<open>
  What the hooks read of the base meter (\<open>tqdm.auto.tqdm\<close>, not among the sources):
  the flags \<open>disable\<close> and \<open>leave\<close> and the position \<open>pos\<close>. The attribute \<open>dio\<close>
  (\<open>tgio\<close>) exists only when the constructor made a sink.
\<close>

record base =
  disable :: pyval
  leave :: pyval
  pos :: int

record tqdm_discord = base +
  dio :: "discord option"

record tqdm_telegram = base +
  tgio :: "telegram option"

text \<open>\<open>kwargs.get(k)\<close>, \<open>kwargs.pop(k, default)\<close> and \<open>os.getenv(k)\<close>.\<close>

definition kwargs_get :: "(string \<rightharpoonup> pyval) \<Rightarrow> string \<Rightarrow> pyval" where
  "kwargs_get kwargs k = (case kwargs k of None \<Rightarrow> PNone | Some v \<Rightarrow> v)"

definition kwargs_pop :: "(string \<rightharpoonup> pyval) \<Rightarrow> string \<Rightarrow> pyval \<Rightarrow> pyval \<times> (string \<rightharpoonup> pyval)" where
  "kwargs_pop kwargs k dflt = ((case kwargs k of None \<Rightarrow> dflt | Some v \<Rightarrow> v), kwargs(k := None))"

definition getenv :: "(string \<rightharpoonup> string) \<Rightarrow> string \<Rightarrow> pyval" where
  "getenv environ k = (case environ k of None \<Rightarrow> PNone | Some v \<Rightarrow> PStr v)"

text \<open>
  The constructors. \<open>base_init\<close> is \<open>super().__init__(*args, **kwargs)\<close>, a parameter:
  it gives the base fields or raises.
\<close>

definition tqdm_discord_init ::
  "env \<Rightarrow> (string \<rightharpoonup> string) \<Rightarrow> ((string \<rightharpoonup> pyval) \<Rightarrow> error + base) \<Rightarrow>
   (string \<rightharpoonup> pyval) \<Rightarrow> world \<Rightarrow> (error + tqdm_discord) \<times> world" where
  "tqdm_discord_init e environ base_init kwargs w =
     (if \<not> truthy (kwargs_get kwargs ''disable'') then
        (case kwargs_pop kwargs ''token'' (getenv environ ''TQDM_DISCORD_TOKEN'') of
           (token, kwargs1) \<Rightarrow>
             (case kwargs_pop kwargs1 ''channel_id'' (getenv environ ''TQDM_DISCORD_CHANNEL_ID'') of
                (channel, kwargs2) \<Rightarrow>
                  (case DiscordIO_init e token channel w of
                     (Inl x, w1) \<Rightarrow> (Inl x, w1)
                   | (Inr io, w1) \<Rightarrow>
                       (case base_init kwargs2 of
                          Inl x \<Rightarrow> (Inl x, w1)
                        | Inr b \<Rightarrow>
                            (Inr \<lparr>disable = disable b, leave = leave b, pos = pos b,
                                  dio = Some io\<rparr>, w1)))))
      else
        (case base_init kwargs of
           Inl x \<Rightarrow> (Inl x, w)
         | Inr b \<Rightarrow>
             (Inr \<lparr>disable = disable b, leave = leave b, pos = pos b, dio = None\<rparr>, w)))"

definition set_mininterval :: "(string \<rightharpoonup> pyval) \<Rightarrow> (string \<rightharpoonup> pyval)" where
  "set_mininterval kwargs =
     (case kwargs_pop kwargs ''mininterval'' (PFloat 1) of
        (v, kwargs1) \<Rightarrow> kwargs1(''mininterval'' \<mapsto> v))"

definition tqdm_telegram_init ::
  "env \<Rightarrow> (string \<rightharpoonup> string) \<Rightarrow> ((string \<rightharpoonup> pyval) \<Rightarrow> error + base) \<Rightarrow>
   (string \<rightharpoonup> pyval) \<Rightarrow> world \<Rightarrow> (error + tqdm_telegram) \<times> world" where
  "tqdm_telegram_init e environ base_init kwargs w =
     (if \<not> truthy (kwargs_get kwargs ''disable'') then
        (case kwargs_pop kwargs ''token'' (getenv environ ''TQDM_TELEGRAM_TOKEN'') of
           (token, kwargs1) \<Rightarrow>
             (case kwargs_pop kwargs1 ''chat_id'' (getenv environ ''TQDM_TELEGRAM_CHAT_ID'') of
                (chat, kwargs2) \<Rightarrow>
                  (case TelegramIO_init e token chat w of
                     (Inl x, w1) \<Rightarrow> (Inl x, w1)
                   | (Inr io, w1) \<Rightarrow>
                       (case base_init (set_mininterval kwargs2) of
                          Inl x \<Rightarrow> (Inl x, w1)
                        | Inr b \<Rightarrow>
                            (Inr \<lparr>disable = disable b, leave = leave b, pos = pos b,
                                  tgio = Some io\<rparr>, w1)))))
      else
        (case base_init (set_mininterval kwargs) of
           Inl x \<Rightarrow> (Inl x, w)
         | Inr b \<Rightarrow>
             (Inr \<lparr>disable = disable b, leave = leave b, pos = pos b, tgio = None\<rparr>, w)))"

text \<open>
  \<open>close\<close>. \<open>base_close\<close> is \<open>super().close()\<close>, a parameter acting on the meter; the
  leave policy is read after it.
\<close>

definition keeps_bar :: "'a base_scheme \<Rightarrow> bool" where
  "keeps_bar m = (truthy (leave m) \<or> (leave m = PNone \<and> pos m = 0))"

definition tqdm_discord_close ::
  "env \<Rightarrow> (tqdm_discord \<Rightarrow> error + tqdm_discord) \<Rightarrow> tqdm_discord \<Rightarrow> world \<Rightarrow>
   (error + tqdm_discord) \<times> world" where
  "tqdm_discord_close e base_close m w =
     (if truthy (disable m) then (Inr m, w)
      else
        (case base_close m of
           Inl x \<Rightarrow> (Inl x, w)
         | Inr m1 \<Rightarrow>
             if \<not> keeps_bar m1 then
               (case dio m1 of
                  None \<Rightarrow> (Inl (AttributeError ''tqdm_discord object has no attribute dio''), w)
                | Some io \<Rightarrow>
                    (case DiscordIO_delete e io w of
                       (Inl x, w1) \<Rightarrow> (Inl x, w1)
                     | (Inr io1, w1) \<Rightarrow> (Inr (m1\<lparr>dio := Some io1\<rparr>), w1)))
             else (Inr m1, w)))"

definition tqdm_telegram_close ::
  "env \<Rightarrow> (tqdm_telegram \<Rightarrow> error + tqdm_telegram) \<Rightarrow> tqdm_telegram \<Rightarrow> world \<Rightarrow>
   (error + tqdm_telegram) \<times> world" where
  "tqdm_telegram_close e base_close m w =
     (if truthy (disable m) then (Inr m, w)
      else
        (case base_close m of
           Inl x \<Rightarrow> (Inl x, w)
         | Inr m1 \<Rightarrow>
             if \<not> keeps_bar m1 then
               (case tgio m1 of
                  None \<Rightarrow> (Inl (AttributeError ''tqdm_telegram object has no attribute tgio''), w)
                | Some io \<Rightarrow>
                    (case TelegramIO_delete e io w of
                       (Inl x, w1) \<Rightarrow> (Inl x, w1)
                     | (Inr io1, w1) \<Rightarrow> (Inr (m1\<lparr>tgio := Some io1\<rparr>), w1)))
             else (Inr m1, w)))"

section \<open>Redirecting console logging\<close>














section \<open>The dispatcher\<close>

text \<open>
  Modelled from the spec: \<open>MonoWorker\<close> (\<open>tqdm/contrib/utils_worker.py\<close>) is not among the
  sources. The spec gives one worker thread, which runs the submitted tasks one at a
  time in the order they were enqueued, and a backlog of at most 2 handles. A
  submission enqueues the new task, appends its handle to the backlog and, if the
  backlog is then longer than 2, pops the oldest handle and cancels it when it has not
  started. A handle is the task's number in submission order; \<open>started\<close> lists the
  handles in the order the worker started them.
\<close>

datatype status = Pending | Running | Done | Cancelled

record dispatcher =
  states :: "status list"
  backlog :: "nat list"
  started :: "nat list"

definition capacity :: nat where
  "capacity = 2"

definition new_dispatcher :: dispatcher where
  "new_dispatcher = \<lparr>states = [], backlog = [], started = []\<rparr>"

definition status_of :: "dispatcher \<Rightarrow> nat \<Rightarrow> status option" where
  "status_of d h = (if h < length (states d) then Some (states d ! h) else None)"

definition evict :: "dispatcher \<Rightarrow> dispatcher" where
  "evict d =
     (case backlog d of
        [] \<Rightarrow> d
      | oldest # rest \<Rightarrow>
          (let d1 = d\<lparr>backlog := rest\<rparr> in
           if status_of d1 oldest = Some Pending
           then d1\<lparr>states := (states d1)[oldest := Cancelled]\<rparr>
           else d1))"

definition MonoWorker_submit :: "dispatcher \<Rightarrow> dispatcher" where
  "MonoWorker_submit d =
     (let handle = length (states d);
          d1 = d\<lparr>states := states d @ [Pending], backlog := backlog d @ [handle]\<rparr>
      in if length (backlog d1) > capacity then evict d1 else d1)"

text \<open>
  Modelled from the spec: the worker thread of \<open>MonoWorker\<close>, which is not among the
  sources. When idle it takes the first task of its queue that is still pending; the
  task it runs ends as done (with a result or an error).
\<close>

definition first_with :: "status \<Rightarrow> dispatcher \<Rightarrow> nat option" where
  "first_with s d = find (\<lambda>h. states d ! h = s) [0..<length (states d)]"

definition worker_start :: "dispatcher \<Rightarrow> dispatcher" where
  "worker_start d =
     (case first_with Running d of
        Some _ \<Rightarrow> d
      | None \<Rightarrow>
          (case first_with Pending d of
             None \<Rightarrow> d
           | Some h \<Rightarrow> d\<lparr>states := (states d)[h := Running], started := started d @ [h]\<rparr>))"

definition worker_finish :: "dispatcher \<Rightarrow> dispatcher" where
  "worker_finish d =
     (case first_with Running d of
        None \<Rightarrow> d
      | Some h \<Rightarrow> d\<lparr>states := (states d)[h := Done]\<rparr>)"

text \<open>
  Modelled from the spec: the caller's submissions and the worker's steps interleave
  in any order, so a run of the dispatcher is a list of events.
\<close>

datatype event = Submit | Start | Finish

fun step :: "event \<Rightarrow> dispatcher \<Rightarrow> dispatcher" where
  "step Submit d = MonoWorker_submit d"
| "step Start d = worker_start d"
| "step Finish d = worker_finish d"

fun run :: "event list \<Rightarrow> dispatcher \<Rightarrow> dispatcher" where
  "run [] d = d"
| "run (ev # evs) d = run evs (step ev d)"

text \<open>
  What holds in every state of a run: the bound on the backlog; the started tasks are
  running or done, in increasing order, and older than every pending task; the
  handles of the backlog are handles of submitted tasks.
\<close>

definition dispatcher_inv :: "dispatcher \<Rightarrow> bool" where
  "dispatcher_inv d =
     (length (backlog d) \<le> capacity
      \<and> (\<forall>h \<in> set (started d). h < length (states d)
            \<and> (states d ! h = Running \<or> states d ! h = Done))
      \<and> sorted_wrt (<) (started d)
      \<and> (\<forall>h \<in> set (started d). \<forall>h' < length (states d). states d ! h' = Pending \<longrightarrow> h < h')
      \<and> (\<forall>h \<in> set (backlog d). h < length (states d)))"

section \<open>Concrete backends and sinks\<close>

text \<open>The world before anything happened.\<close>

definition world0 :: world where
  "world0 = \<lparr>display = [], warnings = [], http = [], submitted = [], sessions = 0\<rparr>"

text \<open>A backend that cannot be reached, and a dispatcher that accepts every task.\<close>

definition env_down :: env where
  "env_down = \<lparr>http_reply = (\<lambda>k. SendFails (RequestError ''connection refused'')),
               submit_fails = (\<lambda>k. None)\<rparr>"

text \<open>A Discord backend that cannot be reached for the first call and answers afterwards.\<close>

definition env_late :: env where
  "env_late = \<lparr>http_reply = (\<lambda>k. if k = 0 then SendFails (RequestError ''connection refused'')
                                  else Body (PDict [(''id'', PStr ''1001'')])),
               submit_fails = (\<lambda>k. None)\<rparr>"

text \<open>A Discord backend that answers with an error object, which has no \<open>id\<close>.\<close>

definition env_no_access :: env where
  "env_no_access = \<lparr>http_reply = (\<lambda>k. Body (PDict [(''message'', PStr ''Missing Access''),
                                                  (''code'', PInt 50001)])),
                    submit_fails = (\<lambda>k. None)\<rparr>"

text \<open>
  Backends that cannot be reached for the first call and afterwards answer with a body
  that is not a JSON object: \<open>null\<close>, and the JSON string \<open>"invalid"\<close>.
\<close>

definition env_null :: env where
  "env_null = \<lparr>http_reply = (\<lambda>k. if k = 0 then SendFails (RequestError ''connection refused'')
                                  else Body PNone),
               submit_fails = (\<lambda>k. None)\<rparr>"

definition env_string :: env where
  "env_string = \<lparr>http_reply = (\<lambda>k. if k = 0 then SendFails (RequestError ''connection refused'')
                                    else Body (PStr ''invalid'')),
                 submit_fails = (\<lambda>k. None)\<rparr>"

text \<open>A Discord backend that answers with a message object.\<close>

definition env_discord :: env where
  "env_discord = \<lparr>http_reply = (\<lambda>k. Body (PDict [(''id'', PStr ''1001''), (''content'', PStr ''DiscordIO'')])),
                  submit_fails = (\<lambda>k. None)\<rparr>"

text \<open>A Telegram backend that answers \<open>sendMessage\<close> with the message.\<close>

definition env_telegram :: env where
  "env_telegram = \<lparr>http_reply = (\<lambda>k. Body (PDict [(''ok'', PBool True),
                                            (''result'', PDict [(''message_id'', PInt 7)])])),
                   submit_fails = (\<lambda>k. None)\<rparr>"

text \<open>A Telegram backend that answers with its rate-limit error.\<close>

definition env_rate_limited :: env where
  "env_rate_limited =
     \<lparr>http_reply = (\<lambda>k. Body (PDict [(''ok'', PBool False), (''error_code'', PInt 429),
                               (''description'', PStr ''Too Many Requests: retry after 5''),
                               (''parameters'', PDict [(''retry_after'', PInt 5)])])),
      submit_fails = (\<lambda>k. None)\<rparr>"

text \<open>A dispatcher whose \<open>submit\<close> raises.\<close>

definition env_no_submit :: env where
  "env_no_submit = \<lparr>http_reply = (\<lambda>k. SendFails (RequestError ''connection refused'')),
                    submit_fails = (\<lambda>k. Some (ValueError ''cannot schedule new futures''))\<rparr>"

text \<open>Sinks as their constructors leave them.\<close>

definition discord_unset :: discord where
  "discord_unset = \<lparr>d_token = PStr ''tok'', channel_id = PStr ''chan'', d_text = ''DiscordIO'',
                    d_message_id = None\<rparr>"

definition discord_ready :: discord where
  "discord_ready = discord_unset\<lparr>d_message_id := Some (PStr ''1001'')\<rparr>"

definition telegram_unset :: telegram where
  "telegram_unset = \<lparr>t_token = PStr ''tok'', chat_id = PStr ''chat'', t_text = ''TelegramIO'',
                     t_message_id = None\<rparr>"

definition telegram_ready :: telegram where
  "telegram_ready = telegram_unset\<lparr>t_message_id := Some (PInt 7)\<rparr>"





section \<open>Properties\<close>

subsection \<open>Normalisation\<close>








subsection \<open>The sinks, call by call\<close>

lemma DiscordIO_write_dedup: "normalize s = d_text io \<Longrightarrow> DiscordIO_write e s io w = (Inr io, w)"
  by (simp add: DiscordIO_write_def)

lemma TelegramIO_write_dedup: "normalize s = t_text io \<Longrightarrow> TelegramIO_write e s io w = (Inr io, w)"
  by (simp add: TelegramIO_write_def)

lemma submitted_tqdm_write: "submitted (tqdm_write s w) = submitted w"
  by (simp add: tqdm_write_def)

lemma http_tqdm_write: "http (tqdm_write s w) = http w"
  by (simp add: tqdm_write_def)

lemma submit_world: "submit e r w = (x, w') \<Longrightarrow> w' = w\<lparr>submitted := submitted w @ [r]\<rparr>"
  by (auto simp: submit_def Let_def split: option.splits)

lemma DiscordIO_message_id_set:
  "d_message_id io = Some v \<Longrightarrow> DiscordIO_message_id e io w = (Inr v, io, w)"
  by (simp add: DiscordIO_message_id_def)

lemma message_id_submitted: "submitted (snd (snd (DiscordIO_message_id e io w))) = submitted w"
  by (simp add: DiscordIO_message_id_def http_call_def tqdm_write_def
           split: option.splits reply.splits sum.splits bool.splits)

lemma message_id_token:
  "d_token (fst (snd (DiscordIO_message_id e io w))) = d_token io"
  "channel_id (fst (snd (DiscordIO_message_id e io w))) = channel_id io"
  "d_text (fst (snd (DiscordIO_message_id e io w))) = d_text io"
  by (simp_all add: DiscordIO_message_id_def http_call_def
           split: option.splits reply.splits sum.splits bool.splits)

lemma DiscordIO_message_id_unset:
  "d_message_id io = None \<Longrightarrow>
   http (snd (snd (DiscordIO_message_id e io w))) =
     http w @ [CreateMessage (d_token io) (channel_id io) (quoted (d_text io))]"
  by (simp add: DiscordIO_message_id_def http_call_def tqdm_write_def
           split: reply.splits sum.splits bool.splits)

lemma DiscordIO_message_id_fails:
  assumes "d_message_id io = None"
    and "http_reply e (length (http w)) = SendFails x \<or> http_reply e (length (http w)) = BadBody x"
  shows "DiscordIO_message_id e io w =
    (Inr PNone, io,
     tqdm_write (str_of x)
       (w\<lparr>http := http w @ [CreateMessage (d_token io) (channel_id io) (quoted (d_text io))]\<rparr>))"
  using assms by (auto simp: DiscordIO_message_id_def http_call_def)

lemma DiscordIO_message_id_no_id:
  assumes "d_message_id io = None"
    and "http_reply e (length (http w)) = Body res" and "py_in ''id'' res = Inr False"
  shows "DiscordIO_message_id e io w =
    (Inr PNone, io,
     w\<lparr>http := http w @ [CreateMessage (d_token io) (channel_id io) (quoted (d_text io))]\<rparr>)"
  using assms by (simp add: DiscordIO_message_id_def http_call_def)

lemma DiscordIO_message_id_records:
  assumes "d_message_id io = None" and "DiscordIO_message_id e io w = (r, io1, w1)"
    and "d_message_id io1 = Some v"
  shows "\<exists>res. http_reply e (length (http w)) = Body res \<and> py_in ''id'' res = Inr True
           \<and> py_getitem res ''id'' = Inr v"
  using assms
  by (auto simp: DiscordIO_message_id_def http_call_def
           split: reply.splits sum.splits bool.splits)

lemma DiscordIO_write_sends:
  "submitted (snd (DiscordIO_write e s io w)) = submitted w \<or>
   (\<exists>mid. submitted (snd (DiscordIO_write e s io w)) =
      submitted w @ [EditMessage (d_token io) (channel_id io) mid (quoted (normalize s))])"
proof (cases "DiscordIO_message_id e io w")
  case (fields r io1 w1)
  have a: "submitted w1 = submitted w" using message_id_submitted [of e io w] fields by simp
  have b: "d_token io1 = d_token io" "channel_id io1 = channel_id io"
    using message_id_token [of e io w] fields by simp_all
  show ?thesis
    using fields a b
    by (auto simp: DiscordIO_write_def DiscordIO_write_try_def Let_def submitted_tqdm_write
             split: sum.splits prod.splits dest!: submit_world)
qed

lemma TelegramIO_write_sends:
  "submitted (snd (TelegramIO_write e s io w)) = submitted w \<or>
   (\<exists>m. t_message_id io = Some m \<and>
        submitted (snd (TelegramIO_write e s io w)) =
          submitted w @ [EditMessage (t_token io) (chat_id io) m (quoted (normalize s))])"
proof (cases "t_message_id io")
  case None
  then show ?thesis
    by (simp add: TelegramIO_write_def TelegramIO_write_try_def Let_def submitted_tqdm_write)
next
  case (Some m)
  then show ?thesis
    by (auto simp: TelegramIO_write_def TelegramIO_write_try_def Let_def submitted_tqdm_write
             split: sum.splits prod.splits dest!: submit_world)
qed

lemma TelegramIO_write_set:
  "t_message_id io = Some m \<Longrightarrow>
   \<exists>w1. TelegramIO_write e s io w = (Inr (io\<lparr>t_text := normalize s\<rparr>), w1)
      \<and> http w1 = http w
      \<and> submitted w1 =
          (if normalize s = t_text io then submitted w
           else submitted w @ [EditMessage (t_token io) (chat_id io) m (quoted (normalize s))])"
  by (auto simp: TelegramIO_write_def TelegramIO_write_try_def Let_def tqdm_write_def
           split: prod.splits sum.splits dest!: submit_world)

lemma DiscordIO_write_set:
  "d_message_id io = Some v \<Longrightarrow> v \<noteq> PNone \<Longrightarrow>
   \<exists>w1. DiscordIO_write e s io w = (Inr (io\<lparr>d_text := normalize s\<rparr>), w1)
      \<and> http w1 = http w
      \<and> submitted w1 =
          (if normalize s = d_text io then submitted w
           else submitted w @ [EditMessage (d_token io) (channel_id io) v (quoted (normalize s))])"
  by (auto simp: DiscordIO_write_def DiscordIO_write_try_def DiscordIO_message_id_set Let_def
        tqdm_write_def split: prod.splits sum.splits dest!: submit_world)


lemma TelegramIO_write_unset:
  "t_message_id io = None \<Longrightarrow>
   TelegramIO_write e s io w =
     (if normalize s = t_text io then (Inr io, w)
      else (Inr (io\<lparr>t_text := normalize s\<rparr>), tqdm_write (str_of no_message_id) w))"
  by (simp add: TelegramIO_write_def TelegramIO_write_try_def Let_def)

lemma TelegramIO_delete_unset:
  "t_message_id io = None \<Longrightarrow>
   TelegramIO_delete e io w = (Inr io, tqdm_write (str_of no_message_id) w)"
  by (simp add: TelegramIO_delete_def TelegramIO_delete_try_def)

lemmas sink_defs =
  DiscordIO_init_def DiscordIO_message_id_def DiscordIO_write_def DiscordIO_write_try_def
  DiscordIO_delete_def DiscordIO_delete_try_def TelegramIO_init_def TelegramIO_write_def
  TelegramIO_write_try_def TelegramIO_delete_def TelegramIO_delete_try_def
  http_call_def submit_def tqdm_write_def warn_def dict_get_def Let_def

lemmas text_defs =
  normalize_def placeholder_def remove_cr_def strip_def CR_def is_space_def quoted_def

lemmas example_defs =
  world0_def env_down_def env_late_def env_discord_def env_telegram_def env_rate_limited_def
  env_no_submit_def env_no_access_def env_null_def env_string_def
  discord_unset_def discord_ready_def telegram_unset_def telegram_ready_def



lemma DiscordIO_delete_returns: "\<exists>io' w'. DiscordIO_delete e io w = (Inr io', w')"
  by (auto simp: DiscordIO_delete_def split: prod.splits sum.splits)

lemma TelegramIO_write_returns: "\<exists>io' w'. TelegramIO_write e s io w = (Inr io', w')"
  by (auto simp: TelegramIO_write_def Let_def split: prod.splits sum.splits)

lemma TelegramIO_delete_returns: "\<exists>io' w'. TelegramIO_delete e io w = (Inr io', w')"
  by (auto simp: TelegramIO_delete_def split: prod.splits sum.splits)

lemma TelegramIO_call_unset:
  assumes "t_message_id io = None"
  shows "\<exists>io' w'. TelegramIO_call e c io w = (Inr io', w') \<and> t_message_id io' = None
           \<and> http w' = http w \<and> submitted w' = submitted w"
proof (cases c)
  case (Write s)
  then show ?thesis
    using assms by (simp add: TelegramIO_write_unset http_tqdm_write submitted_tqdm_write)
next
  case Delete
  then show ?thesis
    using assms by (simp add: TelegramIO_delete_unset http_tqdm_write submitted_tqdm_write)
qed

lemma TelegramIO_calls_unset:
  "t_message_id io = None \<Longrightarrow>
   \<exists>io' w'. TelegramIO_calls e cs io w = (Inr io', w') \<and> t_message_id io' = None
      \<and> http w' = http w \<and> submitted w' = submitted w"
proof (induction cs arbitrary: io w)
  case Nil
  then show ?case by simp
next
  case (Cons c cs)
  obtain io1 w1 where one: "TelegramIO_call e c io w = (Inr io1, w1)" "t_message_id io1 = None"
      "http w1 = http w" "submitted w1 = submitted w"
    using TelegramIO_call_unset [OF Cons.prems] by blast
  obtain io2 w2 where rest: "TelegramIO_calls e cs io1 w1 = (Inr io2, w2)" "t_message_id io2 = None"
      "http w2 = http w1" "submitted w2 = submitted w1"
    using Cons.IH [OF one(2)] by blast
  from one rest show ?case by simp
qed

lemma TelegramIO_call_frame:
  "\<exists>io' w'. TelegramIO_call e c io w = (Inr io', w') \<and> t_message_id io' = t_message_id io
      \<and> http w' = http w"
proof (cases c)
  case (Write s)
  show ?thesis
    by (auto simp: Write TelegramIO_write_def TelegramIO_write_try_def Let_def http_tqdm_write
             split: prod.splits sum.splits option.splits dest!: submit_world)
next
  case Delete
  show ?thesis
    by (auto simp: Delete TelegramIO_delete_def TelegramIO_delete_try_def http_tqdm_write
             split: prod.splits sum.splits option.splits dest!: submit_world)
qed

lemma TelegramIO_calls_frame:
  "\<exists>io' w'. TelegramIO_calls e cs io w = (Inr io', w') \<and> t_message_id io' = t_message_id io
      \<and> http w' = http w"
proof (induction cs arbitrary: io w)
  case Nil
  show ?case by simp
next
  case (Cons c cs)
  obtain io1 w1 where one: "TelegramIO_call e c io w = (Inr io1, w1)"
      "t_message_id io1 = t_message_id io" "http w1 = http w"
    using TelegramIO_call_frame by blast
  obtain io2 w2 where rest: "TelegramIO_calls e cs io1 w1 = (Inr io2, w2)"
      "t_message_id io2 = t_message_id io1" "http w2 = http w1"
    using Cons.IH by blast
  from one rest show ?case by simp
qed

lemma DiscordIO_call_set:
  assumes "d_message_id io = Some v"
  shows "\<exists>io' w'. DiscordIO_call e c io w = (Inr io', w') \<and> d_message_id io' = Some v
           \<and> http w' = http w"
proof (cases c)
  case (Write s)
  show ?thesis
    using assms
    by (auto simp: Write DiscordIO_write_def DiscordIO_write_try_def DiscordIO_message_id_set
          Let_def http_tqdm_write split: prod.splits sum.splits dest!: submit_world)
next
  case Delete
  show ?thesis
    using assms
    by (auto simp: Delete DiscordIO_delete_def DiscordIO_delete_try_def DiscordIO_message_id_set
          http_tqdm_write split: prod.splits sum.splits dest!: submit_world)
qed

lemma DiscordIO_calls_set:
  "d_message_id io = Some v \<Longrightarrow>
   \<exists>io' w'. DiscordIO_calls e cs io w = (Inr io', w') \<and> d_message_id io' = Some v
      \<and> http w' = http w"
proof (induction cs arbitrary: io w)
  case Nil
  then show ?case by simp
next
  case (Cons c cs)
  obtain io1 w1 where one: "DiscordIO_call e c io w = (Inr io1, w1)" "d_message_id io1 = Some v"
      "http w1 = http w"
    using DiscordIO_call_set [OF Cons.prems] by blast
  obtain io2 w2 where rest: "DiscordIO_calls e cs io1 w1 = (Inr io2, w2)" "d_message_id io2 = Some v"
      "http w2 = http w1"
    using Cons.IH [OF one(2)] by blast
  from one rest show ?case by simp
qed


lemma DiscordIO_write_unset_http:
  assumes "d_message_id io = None" and "normalize s \<noteq> d_text io"
  shows "http (snd (DiscordIO_write e s io w)) = http w @ [CreateMessage (d_token io) (channel_id io) (quoted (d_text io))]"
proof -
  obtain r io1 w1 where m: "DiscordIO_message_id e io w = (r, io1, w1)"
    by (cases "DiscordIO_message_id e io w") auto
  have h: "http w1 = http w @ [CreateMessage (d_token io) (channel_id io) (quoted (d_text io))]"
    using DiscordIO_message_id_unset [OF assms(1), of e w] m by simp
  show ?thesis
    using assms(2) m h
    by (auto simp: DiscordIO_write_def DiscordIO_write_try_def Let_def http_tqdm_write
             split: prod.splits sum.splits dest!: submit_world)
qed

lemma DiscordIO_write_unset_fails:
  assumes "d_message_id io = None" and "normalize s \<noteq> d_text io"
    and "http_reply e (length (http w)) = SendFails x \<or> http_reply e (length (http w)) = BadBody x"
  shows "DiscordIO_write e s io w =
    (Inr io, tqdm_write (str_of x) (w\<lparr>http := http w @ [CreateMessage (d_token io) (channel_id io) (quoted (d_text io))]\<rparr>))"
  using assms(2) DiscordIO_message_id_fails [OF assms(1,3)]
  by (simp add: DiscordIO_write_def Let_def)

lemma DiscordIO_write_unset_no_id:
  assumes "d_message_id io = None" and "normalize s \<noteq> d_text io"
    and "http_reply e (length (http w)) = Body res" and "py_in ''id'' res = Inr False"
  shows "DiscordIO_write e s io w = (Inr io, w\<lparr>http := http w @ [CreateMessage (d_token io) (channel_id io) (quoted (d_text io))]\<rparr>)"
  using assms(2) DiscordIO_message_id_no_id [OF assms(1,3,4)]
  by (simp add: DiscordIO_write_def Let_def)

lemma DiscordIO_delete_unset_http:
  assumes "d_message_id io = None"
  shows "http (snd (DiscordIO_delete e io w)) = http w @ [CreateMessage (d_token io) (channel_id io) (quoted (d_text io))]"
proof -
  obtain r io1 w1 where m: "DiscordIO_message_id e io w = (r, io1, w1)"
    by (cases "DiscordIO_message_id e io w") auto
  have h: "http w1 = http w @ [CreateMessage (d_token io) (channel_id io) (quoted (d_text io))]"
    using DiscordIO_message_id_unset [OF assms, of e w] m by simp
  show ?thesis
    using m h
    by (auto simp: DiscordIO_delete_def DiscordIO_delete_try_def http_tqdm_write
             split: prod.splits sum.splits dest!: submit_world)
qed

lemma DiscordIO_call_records:
  assumes "d_message_id io = None" and "DiscordIO_call e c io w = (Inr io', w')"
    and "d_message_id io' = Some v"
  shows "http w' = http w @ [CreateMessage (d_token io) (channel_id io) (quoted (d_text io))]
     \<and> (\<exists>res. http_reply e (length (http w)) = Body res \<and> py_getitem res ''id'' = Inr v)"
proof -
  obtain r io1 w1 where m: "DiscordIO_message_id e io w = (r, io1, w1)"
    by (cases "DiscordIO_message_id e io w") auto
  have same: "d_message_id io' = d_message_id io1 \<or> io' = io \<and> w' = w"
    using assms(2) m
    by (cases c)
       (auto simp: DiscordIO_write_def DiscordIO_write_try_def DiscordIO_delete_def
          DiscordIO_delete_try_def Let_def split: prod.splits sum.splits if_splits)
  with assms(1,3) have rec: "d_message_id io1 = Some v" by auto
  have body: "\<exists>res. http_reply e (length (http w)) = Body res \<and> py_getitem res ''id'' = Inr v"
    using DiscordIO_message_id_records [OF assms(1) m rec] by blast
  have "http (snd (DiscordIO_call e c io w)) = http w @ [CreateMessage (d_token io) (channel_id io) (quoted (d_text io))]"
  proof (cases c)
    case (Write s)
    have "normalize s \<noteq> d_text io"
    proof
      assume "normalize s = d_text io"
      then have "DiscordIO_write e s io w = (Inr io, w)" by (rule DiscordIO_write_dedup)
      with assms Write show False by simp
    qed
    with assms(1) show ?thesis by (simp add: Write DiscordIO_write_unset_http)
  next
    case Delete
    with assms(1) show ?thesis by (simp add: DiscordIO_delete_unset_http)
  qed
  with assms(2) body show ?thesis by simp
qed

lemma TelegramIO_init_http:
  "http (snd (TelegramIO_init e token chat w)) =
     http w @ [CreateMessage token chat (quoted ''TelegramIO'')]"
  by (simp add: TelegramIO_init_def http_call_def Let_def tqdm_write_def warn_def
           split: reply.splits option.splits sum.splits)

lemma DiscordIO_init_http:
  "http (snd (DiscordIO_init e token channel w)) =
     http w @ [CreateMessage token channel (quoted ''DiscordIO'')]"
  using DiscordIO_message_id_unset
    [of "\<lparr>d_token = token, channel_id = channel, d_text = ''DiscordIO'', d_message_id = None\<rparr>" e w]
  by (auto simp: DiscordIO_init_def split: prod.splits sum.splits)

lemma TelegramIO_call_submitted:
  "\<exists>rs. submitted (snd (TelegramIO_call e c io w)) = submitted w @ rs
      \<and> list_all (\<lambda>r. \<not> is_create r) rs"
proof (cases c)
  case (Write s)
  from TelegramIO_write_sends [of e s io w] show ?thesis
  proof
    assume "submitted (snd (TelegramIO_write e s io w)) = submitted w"
    then show ?thesis by (intro exI [of _ "[]"]) (simp add: Write)
  next
    assume "\<exists>m. t_message_id io = Some m \<and>
        submitted (snd (TelegramIO_write e s io w)) =
          submitted w @ [EditMessage (t_token io) (chat_id io) m (quoted (normalize s))]"
    then obtain m where "submitted (snd (TelegramIO_write e s io w)) =
          submitted w @ [EditMessage (t_token io) (chat_id io) m (quoted (normalize s))]"
      by blast
    then show ?thesis
      by (intro exI [of _ "[EditMessage (t_token io) (chat_id io) m (quoted (normalize s))]"])
         (simp add: Write)
  qed
next
  case Delete
  show ?thesis
  proof (cases "t_message_id io")
    case None
    then show ?thesis
      by (intro exI [of _ "[]"])
         (simp add: Delete TelegramIO_delete_def TelegramIO_delete_try_def tqdm_write_def)
  next
    case (Some m)
    then show ?thesis
      by (intro exI [of _ "[DeleteMessage (t_token io) (chat_id io) m]"])
         (auto simp: Delete TelegramIO_delete_def TelegramIO_delete_try_def tqdm_write_def
               split: prod.splits sum.splits dest!: submit_world)
  qed
qed

lemma DiscordIO_call_submitted:
  "\<exists>rs. submitted (snd (DiscordIO_call e c io w)) = submitted w @ rs
      \<and> list_all (\<lambda>r. \<not> is_create r) rs"
proof (cases c)
  case (Write s)
  from DiscordIO_write_sends [of e s io w] show ?thesis
  proof
    assume "submitted (snd (DiscordIO_write e s io w)) = submitted w"
    then show ?thesis by (intro exI [of _ "[]"]) (simp add: Write)
  next
    assume "\<exists>mid. submitted (snd (DiscordIO_write e s io w)) =
        submitted w @ [EditMessage (d_token io) (channel_id io) mid (quoted (normalize s))]"
    then obtain mid where "submitted (snd (DiscordIO_write e s io w)) =
        submitted w @ [EditMessage (d_token io) (channel_id io) mid (quoted (normalize s))]"
      by blast
    then show ?thesis
      by (intro exI [of _ "[EditMessage (d_token io) (channel_id io) mid (quoted (normalize s))]"])
         (simp add: Write)
  qed
next
  case Delete
  obtain r io1 w1 where m: "DiscordIO_message_id e io w = (r, io1, w1)"
    by (cases "DiscordIO_message_id e io w") auto
  have s: "submitted w1 = submitted w" using message_id_submitted [of e io w] m by simp
  show ?thesis
  proof (cases r)
    case (Inl x)
    with m s show ?thesis
      by (intro exI [of _ "[]"])
         (simp add: Delete DiscordIO_delete_def DiscordIO_delete_try_def tqdm_write_def)
  next
    case (Inr mid)
    with m s show ?thesis
      by (intro exI [of _ "[DeleteMessage (d_token io1) (channel_id io1) mid]"])
         (auto simp: Delete DiscordIO_delete_def DiscordIO_delete_try_def tqdm_write_def
               split: prod.splits sum.splits dest!: submit_world)
  qed
qed

lemma TelegramIO_calls_submitted:
  "\<exists>rs. submitted (snd (TelegramIO_calls e cs io w)) = submitted w @ rs
      \<and> list_all (\<lambda>r. \<not> is_create r) rs"
proof (induction cs arbitrary: io w)
  case Nil
  show ?case by (intro exI [of _ "[]"]) simp
next
  case (Cons c cs)
  obtain io1 w1 where one: "TelegramIO_call e c io w = (Inr io1, w1)"
    using TelegramIO_call_frame [of e c io w] by blast
  obtain rs1 where r1: "submitted w1 = submitted w @ rs1" "list_all (\<lambda>r. \<not> is_create r) rs1"
    using TelegramIO_call_submitted [of e c io w] one by auto
  obtain rs2 where r2: "submitted (snd (TelegramIO_calls e cs io1 w1)) = submitted w1 @ rs2"
      "list_all (\<lambda>r. \<not> is_create r) rs2"
    using Cons.IH [of io1 w1] by blast
  show ?case using one r1 r2 by (intro exI [of _ "rs1 @ rs2"]) simp
qed

lemma DiscordIO_calls_submitted:
  "\<exists>rs. submitted (snd (DiscordIO_calls e cs io w)) = submitted w @ rs
      \<and> list_all (\<lambda>r. \<not> is_create r) rs"
proof (induction cs arbitrary: io w)
  case Nil
  show ?case by (intro exI [of _ "[]"]) simp
next
  case (Cons c cs)
  obtain r w1 where one: "DiscordIO_call e c io w = (r, w1)"
    by (cases "DiscordIO_call e c io w") auto
  obtain rs1 where r1: "submitted w1 = submitted w @ rs1" "list_all (\<lambda>r. \<not> is_create r) rs1"
    using DiscordIO_call_submitted [of e c io w] one by auto
  show ?case
  proof (cases r)
    case (Inl x)
    with one r1 show ?thesis by (intro exI [of _ rs1]) simp
  next
    case (Inr io1)
    obtain rs2 where r2: "submitted (snd (DiscordIO_calls e cs io1 w1)) = submitted w1 @ rs2"
        "list_all (\<lambda>r. \<not> is_create r) rs2"
      using Cons.IH [of io1 w1] by blast
    with Inr one r1 show ?thesis by (intro exI [of _ "rs1 @ rs2"]) simp
  qed
qed

text \<open>
  Claim C1, amended. A Telegram sink without identifier exists when the create request
  of the constructor raised. On such a sink a \<open>write\<close> of the recorded text does
  nothing; every other \<open>write\<close> records the new text, and it and every \<open>delete\<close>
  write the caught \<open>AttributeError\<close> of the missing identifier to the display and
  return normally; so every sequence of \<open>write\<close> and \<open>delete\<close> calls returns normally,
  makes no HTTP call, submits nothing and leaves the identifier unset. On a Discord
  sink without identifier a \<open>write\<close> of the recorded text does nothing; every other
  \<open>write\<close> repeats the create request once, and when that request raises (the error
  is written to the display) or its response holds no \<open>id\<close>, the \<open>write\<close> returns
  normally, leaves the sink as it was and submits nothing. Every \<open>delete\<close> on such a
  sink repeats the create request once and returns normally.
\<close>

theorem calls_without_identifier:
  "(t_message_id ts = None \<longrightarrow>
      TelegramIO_write e s ts w =
        (if normalize s = t_text ts then (Inr ts, w)
         else (Inr (ts\<lparr>t_text := normalize s\<rparr>), tqdm_write (str_of no_message_id) w))
      \<and> TelegramIO_delete e ts w = (Inr ts, tqdm_write (str_of no_message_id) w)
      \<and> (\<exists>ts' w'. TelegramIO_calls e cs ts w = (Inr ts', w') \<and> t_message_id ts' = None
            \<and> http w' = http w \<and> submitted w' = submitted w))
   \<and> (d_message_id ds = None \<longrightarrow>
      (normalize s = d_text ds \<longrightarrow> DiscordIO_write e s ds w = (Inr ds, w))
      \<and> (normalize s \<noteq> d_text ds \<longrightarrow>
            http (snd (DiscordIO_write e s ds w)) = http w @ [CreateMessage (d_token ds) (channel_id ds) (quoted (d_text ds))]
            \<and> (http_reply e (length (http w)) = SendFails x
                  \<or> http_reply e (length (http w)) = BadBody x \<longrightarrow>
                DiscordIO_write e s ds w =
                  (Inr ds, tqdm_write (str_of x) (w\<lparr>http := http w @ [CreateMessage (d_token ds) (channel_id ds) (quoted (d_text ds))]\<rparr>)))
            \<and> (http_reply e (length (http w)) = Body res \<and> py_in ''id'' res = Inr False \<longrightarrow>
                DiscordIO_write e s ds w = (Inr ds, w\<lparr>http := http w @ [CreateMessage (d_token ds) (channel_id ds) (quoted (d_text ds))]\<rparr>)))
      \<and> (\<exists>ds' w'. DiscordIO_delete e ds w = (Inr ds', w')
            \<and> http w' = http w @ [CreateMessage (d_token ds) (channel_id ds) (quoted (d_text ds))]))"
proof (intro conjI impI)
  assume t: "t_message_id ts = None"
  show "TelegramIO_write e s ts w =
        (if normalize s = t_text ts then (Inr ts, w)
         else (Inr (ts\<lparr>t_text := normalize s\<rparr>), tqdm_write (str_of no_message_id) w))"
    using t by (rule TelegramIO_write_unset)
  show "TelegramIO_delete e ts w = (Inr ts, tqdm_write (str_of no_message_id) w)"
    using t by (rule TelegramIO_delete_unset)
  show "\<exists>ts' w'. TelegramIO_calls e cs ts w = (Inr ts', w') \<and> t_message_id ts' = None
            \<and> http w' = http w \<and> submitted w' = submitted w"
    using t by (rule TelegramIO_calls_unset)
next
  assume "normalize s = d_text ds"
  then show "DiscordIO_write e s ds w = (Inr ds, w)" by (rule DiscordIO_write_dedup)
next
  assume d: "d_message_id ds = None" and n: "normalize s \<noteq> d_text ds"
  show "http (snd (DiscordIO_write e s ds w)) = http w @ [CreateMessage (d_token ds) (channel_id ds) (quoted (d_text ds))]"
    using d n by (rule DiscordIO_write_unset_http)
next
  assume d: "d_message_id ds = None" and n: "normalize s \<noteq> d_text ds"
    and f: "http_reply e (length (http w)) = SendFails x
              \<or> http_reply e (length (http w)) = BadBody x"
  show "DiscordIO_write e s ds w =
          (Inr ds, tqdm_write (str_of x) (w\<lparr>http := http w @ [CreateMessage (d_token ds) (channel_id ds) (quoted (d_text ds))]\<rparr>))"
    using d n f by (rule DiscordIO_write_unset_fails)
next
  assume d: "d_message_id ds = None" and n: "normalize s \<noteq> d_text ds"
    and b: "http_reply e (length (http w)) = Body res \<and> py_in ''id'' res = Inr False"
  show "DiscordIO_write e s ds w = (Inr ds, w\<lparr>http := http w @ [CreateMessage (d_token ds) (channel_id ds) (quoted (d_text ds))]\<rparr>)"
    using d n b by (simp add: DiscordIO_write_unset_no_id)
next
  assume d: "d_message_id ds = None"
  obtain ds' w' where r: "DiscordIO_delete e ds w = (Inr ds', w')"
    using DiscordIO_delete_returns by blast
  have "http w' = http w @ [CreateMessage (d_token ds) (channel_id ds) (quoted (d_text ds))]"
    using DiscordIO_delete_unset_http [OF d, of e w] r by simp
  with r show "\<exists>ds' w'. DiscordIO_delete e ds w = (Inr ds', w')
            \<and> http w' = http w @ [CreateMessage (d_token ds) (channel_id ds) (quoted (d_text ds))]"
    by blast
qed

text \<open>
  The theorem on the Telegram sink that the constructor leaves when the backend cannot
  be reached, and on the Discord sink in the same state: with a backend that still
  cannot be reached, and with one that answers with an error object.
\<close>

theorem calls_without_identifier_witness:
  "TelegramIO_init env_down (PStr ''tok'') (PStr ''chat'') world0 =
     (Inr telegram_unset,
      world0\<lparr>sessions := 1, http := [CreateMessage (PStr ''tok'') (PStr ''chat'') (quoted ''TelegramIO'')],
             display := [''connection refused'']\<rparr>)
   \<and> t_message_id telegram_unset = None
   \<and> TelegramIO_write env_down (Some ''10%'') telegram_unset world0 =
       (Inr (telegram_unset\<lparr>t_text := ''10%''\<rparr>), tqdm_write (str_of no_message_id) world0)
   \<and> TelegramIO_delete env_down telegram_unset world0 =
       (Inr telegram_unset, tqdm_write (str_of no_message_id) world0)
   \<and> fst (TelegramIO_calls env_down [Write (Some ''10%''), Write None, Delete] telegram_unset world0)
       = Inr (telegram_unset\<lparr>t_text := ''...''\<rparr>)
   \<and> http (snd (TelegramIO_calls env_down [Write (Some ''10%''), Write None, Delete] telegram_unset world0)) = []
   \<and> submitted (snd (TelegramIO_calls env_down [Write (Some ''10%''), Write None, Delete] telegram_unset world0)) = []
   \<and> d_message_id discord_unset = None
   \<and> normalize (Some ''10%'') \<noteq> d_text discord_unset
   \<and> normalize (Some ''DiscordIO'') = d_text discord_unset
   \<and> DiscordIO_write env_down (Some ''DiscordIO'') discord_unset world0 = (Inr discord_unset, world0)
   \<and> http_reply env_down (length (http world0)) = SendFails (RequestError ''connection refused'')
   \<and> DiscordIO_write env_down (Some ''10%'') discord_unset world0 =
       (Inr discord_unset,
        tqdm_write ''connection refused''
          (world0\<lparr>http := [CreateMessage (PStr ''tok'') (PStr ''chan'') (quoted ''DiscordIO'')]\<rparr>))
   \<and> http_reply env_no_access (length (http world0)) =
       Body (PDict [(''message'', PStr ''Missing Access''), (''code'', PInt 50001)])
   \<and> py_in ''id'' (PDict [(''message'', PStr ''Missing Access''), (''code'', PInt 50001)]) = Inr False
   \<and> DiscordIO_write env_no_access (Some ''10%'') discord_unset world0 =
       (Inr discord_unset,
        world0\<lparr>http := [CreateMessage (PStr ''tok'') (PStr ''chan'') (quoted ''DiscordIO'')]\<rparr>)"
proof -
  let ?cs = "[Write (Some ''10%''), Write None, Delete]"
  have init: "TelegramIO_init env_down (PStr ''tok'') (PStr ''chat'') world0 =
     (Inr telegram_unset,
      world0\<lparr>sessions := 1, http := [CreateMessage (PStr ''tok'') (PStr ''chat'') (quoted ''TelegramIO'')],
             display := [''connection refused'']\<rparr>)"
    by (simp add: sink_defs example_defs)
  have t: "t_message_id telegram_unset = None" by (simp add: telegram_unset_def)
  have d: "d_message_id discord_unset = None" by (simp add: discord_unset_def)
  have n10: "normalize (Some ''10%'') = ''10%''" by (simp add: text_defs)
  have nt: "normalize (Some ''10%'') \<noteq> t_text telegram_unset"
    by (simp add: text_defs telegram_unset_def)
  have n: "normalize (Some ''10%'') \<noteq> d_text discord_unset"
    by (simp add: text_defs discord_unset_def)
  have nd: "normalize (Some ''DiscordIO'') = d_text discord_unset"
    by (simp add: text_defs discord_unset_def)
  have fields: "d_token discord_unset = PStr ''tok''" "channel_id discord_unset = PStr ''chan''"
      "d_text discord_unset = ''DiscordIO''"
    by (simp_all add: discord_unset_def)
  have h0: "http world0 = []" by (simp add: world0_def)
  have r_down: "http_reply env_down (length (http world0)) = SendFails (RequestError ''connection refused'')"
    by (simp add: env_down_def)
  have r_acc: "http_reply env_no_access (length (http world0)) =
       Body (PDict [(''message'', PStr ''Missing Access''), (''code'', PInt 50001)])"
    by (simp add: env_no_access_def)
  have no_id: "py_in ''id'' (PDict [(''message'', PStr ''Missing Access''), (''code'', PInt 50001)]) = Inr False"
    by simp
  have run: "fst (TelegramIO_calls env_down ?cs telegram_unset world0)
       = Inr (telegram_unset\<lparr>t_text := ''...''\<rparr>)"
    by (simp add: sink_defs example_defs text_defs no_message_id_def)
  note inst_t = calls_without_identifier
    [where ts = telegram_unset and e = env_down and w = world0 and cs = ?cs
       and s = "Some ''10%''", THEN conjunct1, THEN mp, OF t]
  note inst_dedup = calls_without_identifier
    [where ds = discord_unset and e = env_down and w = world0 and s = "Some ''DiscordIO''",
     THEN conjunct2, THEN mp, OF d]
  note inst_down = calls_without_identifier
    [where ds = discord_unset and e = env_down and w = world0 and s = "Some ''10%''"
       and x = "RequestError ''connection refused''",
     THEN conjunct2, THEN mp, OF d]
  note inst_acc = calls_without_identifier
    [where ds = discord_unset and e = env_no_access and w = world0 and s = "Some ''10%''"
       and res = "PDict [(''message'', PStr ''Missing Access''), (''code'', PInt 50001)]",
     THEN conjunct2, THEN mp, OF d]
  have tw: "TelegramIO_write env_down (Some ''10%'') telegram_unset world0 =
       (Inr (telegram_unset\<lparr>t_text := ''10%''\<rparr>), tqdm_write (str_of no_message_id) world0)"
    using inst_t nt n10 by simp
  have td: "TelegramIO_delete env_down telegram_unset world0 =
       (Inr telegram_unset, tqdm_write (str_of no_message_id) world0)"
    using inst_t by simp
  have tc: "http (snd (TelegramIO_calls env_down ?cs telegram_unset world0)) = []"
      "submitted (snd (TelegramIO_calls env_down ?cs telegram_unset world0)) = []"
  proof -
    from inst_t obtain ts' w' where
      "TelegramIO_calls env_down ?cs telegram_unset world0 = (Inr ts', w')"
      "http w' = http world0" "submitted w' = submitted world0"
      by blast
    then show "http (snd (TelegramIO_calls env_down ?cs telegram_unset world0)) = []"
      "submitted (snd (TelegramIO_calls env_down ?cs telegram_unset world0)) = []"
      by (simp_all only: snd_conv) (simp_all add: world0_def)
  qed
  have dd: "DiscordIO_write env_down (Some ''DiscordIO'') discord_unset world0 = (Inr discord_unset, world0)"
    using inst_dedup nd by simp
  have dw: "DiscordIO_write env_down (Some ''10%'') discord_unset world0 =
       (Inr discord_unset,
        tqdm_write ''connection refused''
          (world0\<lparr>http := [CreateMessage (PStr ''tok'') (PStr ''chan'') (quoted ''DiscordIO'')]\<rparr>))"
    using inst_down n r_down fields h0 by simp
  have da: "DiscordIO_write env_no_access (Some ''10%'') discord_unset world0 =
       (Inr discord_unset,
        world0\<lparr>http := [CreateMessage (PStr ''tok'') (PStr ''chan'') (quoted ''DiscordIO'')]\<rparr>)"
    using inst_acc n r_acc no_id fields h0 by simp
  from init t tw td run tc d n nd dd r_down dw r_acc no_id da show ?thesis by blast
qed

text \<open>
  Claim C1 as stated fails on the Discord sink: after a failed create, \<open>write\<close> with a
  new text makes an HTTP call (the create request, again), and \<open>delete\<close> makes that
  call and submits a delete request for the message \<open>None\<close>.
\<close>

theorem discord_repeats_create_counterexample:
  "DiscordIO_init env_down (PStr ''tok'') (PStr ''chan'') world0 =
     (Inr discord_unset,
      world0\<lparr>http := [CreateMessage (PStr ''tok'') (PStr ''chan'') (quoted ''DiscordIO'')],
             display := [''connection refused'']\<rparr>)
   \<and> d_message_id discord_unset = None
   \<and> http (snd (DiscordIO_write env_down (Some ''10%'') discord_unset
        (snd (DiscordIO_init env_down (PStr ''tok'') (PStr ''chan'') world0))))
       = [CreateMessage (PStr ''tok'') (PStr ''chan'') (quoted ''DiscordIO''),
          CreateMessage (PStr ''tok'') (PStr ''chan'') (quoted ''DiscordIO'')]
   \<and> http (snd (DiscordIO_delete env_down discord_unset
        (snd (DiscordIO_init env_down (PStr ''tok'') (PStr ''chan'') world0))))
       = [CreateMessage (PStr ''tok'') (PStr ''chan'') (quoted ''DiscordIO''),
          CreateMessage (PStr ''tok'') (PStr ''chan'') (quoted ''DiscordIO'')]
   \<and> submitted (snd (DiscordIO_delete env_down discord_unset
        (snd (DiscordIO_init env_down (PStr ''tok'') (PStr ''chan'') world0))))
       = [DeleteMessage (PStr ''tok'') (PStr ''chan'') PNone]"
  by (simp add: sink_defs example_defs text_defs)

text \<open>
  Claim C2, amended. The Telegram constructor issues exactly one create request, and
  no sequence of later \<open>write\<close> and \<open>delete\<close> calls makes an HTTP call or changes
  the identifier. The Discord constructor issues exactly one create request; on a sink
  with a recorded identifier no sequence of later calls makes an HTTP call, and the
  identifier stays. On a Discord sink without identifier a \<open>write\<close> of the recorded
  text makes no HTTP call, every other \<open>write\<close> and every \<open>delete\<close> makes exactly
  one, the create request again; and when a call returns a sink with an identifier,
  the call made that request and the identifier is the \<open>id\<close> of its response. No
  request that \<open>write\<close> or \<open>delete\<close> of either sink submits to the dispatcher is a
  create request.
\<close>

theorem create_request_issuers:
  "http (snd (TelegramIO_init e token chat w)) =
     http w @ [CreateMessage token chat (quoted ''TelegramIO'')]
   \<and> (\<exists>ts' w'. TelegramIO_calls e cs ts w = (Inr ts', w') \<and> http w' = http w
         \<and> t_message_id ts' = t_message_id ts)
   \<and> http (snd (DiscordIO_init e token channel w)) =
       http w @ [CreateMessage token channel (quoted ''DiscordIO'')]
   \<and> (d_message_id ds = Some v \<longrightarrow>
        (\<exists>ds' w'. DiscordIO_calls e cs ds w = (Inr ds', w') \<and> http w' = http w
            \<and> d_message_id ds' = Some v))
   \<and> (d_message_id ds = None \<longrightarrow>
        (normalize s = d_text ds \<longrightarrow> DiscordIO_write e s ds w = (Inr ds, w))
        \<and> (normalize s \<noteq> d_text ds \<longrightarrow>
              http (snd (DiscordIO_write e s ds w)) = http w @ [CreateMessage (d_token ds) (channel_id ds) (quoted (d_text ds))])
        \<and> http (snd (DiscordIO_delete e ds w)) = http w @ [CreateMessage (d_token ds) (channel_id ds) (quoted (d_text ds))]
        \<and> (\<forall>ds' w' v'. DiscordIO_call e c ds w = (Inr ds', w') \<and> d_message_id ds' = Some v' \<longrightarrow>
              http w' = http w @ [CreateMessage (d_token ds) (channel_id ds) (quoted (d_text ds))]
              \<and> (\<exists>res. http_reply e (length (http w)) = Body res
                    \<and> py_getitem res ''id'' = Inr v')))
   \<and> (\<exists>rs. submitted (snd (TelegramIO_calls e cs ts w)) = submitted w @ rs
         \<and> list_all (\<lambda>r. \<not> is_create r) rs)
   \<and> (\<exists>rs. submitted (snd (DiscordIO_calls e cs ds w)) = submitted w @ rs
         \<and> list_all (\<lambda>r. \<not> is_create r) rs)"
proof -
  have tg: "\<exists>ts' w'. TelegramIO_calls e cs ts w = (Inr ts', w') \<and> http w' = http w
         \<and> t_message_id ts' = t_message_id ts"
    using TelegramIO_calls_frame [of e cs ts w] by blast
  have ds_set: "d_message_id ds = Some v \<longrightarrow>
        (\<exists>ds' w'. DiscordIO_calls e cs ds w = (Inr ds', w') \<and> http w' = http w
            \<and> d_message_id ds' = Some v)"
    using DiscordIO_calls_set [of ds v e cs w] by blast
  have ds_unset: "d_message_id ds = None \<longrightarrow>
        (normalize s = d_text ds \<longrightarrow> DiscordIO_write e s ds w = (Inr ds, w))
        \<and> (normalize s \<noteq> d_text ds \<longrightarrow>
              http (snd (DiscordIO_write e s ds w)) = http w @ [CreateMessage (d_token ds) (channel_id ds) (quoted (d_text ds))])
        \<and> http (snd (DiscordIO_delete e ds w)) = http w @ [CreateMessage (d_token ds) (channel_id ds) (quoted (d_text ds))]
        \<and> (\<forall>ds' w' v'. DiscordIO_call e c ds w = (Inr ds', w') \<and> d_message_id ds' = Some v' \<longrightarrow>
              http w' = http w @ [CreateMessage (d_token ds) (channel_id ds) (quoted (d_text ds))]
              \<and> (\<exists>res. http_reply e (length (http w)) = Body res
                    \<and> py_getitem res ''id'' = Inr v'))"
    using DiscordIO_write_dedup [of s ds e w] DiscordIO_write_unset_http [of ds s e w]
      DiscordIO_delete_unset_http [of ds e w] DiscordIO_call_records [of ds e c w]
    by blast
  show ?thesis
    using TelegramIO_init_http [of e token chat w] tg DiscordIO_init_http [of e token channel w]
      ds_set ds_unset
      TelegramIO_calls_submitted [of e cs ts w] DiscordIO_calls_submitted [of e cs ds w]
    by blast
qed

text \<open>
  The theorem on sinks with an identifier and three calls each; on the Discord sink
  without identifier with a \<open>write\<close> of the recorded text, with a \<open>write\<close> of a new
  text after which the backend answers (the call records the identifier of the
  response), and with a \<open>delete\<close>.
\<close>

theorem create_request_issuers_witness:
  "t_message_id telegram_ready = Some (PInt 7)
   \<and> fst (TelegramIO_calls env_telegram [Write (Some ''10%''), Write (Some ''20%''), Delete]
            telegram_ready world0) = Inr (telegram_ready\<lparr>t_text := ''20%''\<rparr>)
   \<and> http (snd (TelegramIO_calls env_telegram [Write (Some ''10%''), Write (Some ''20%''), Delete]
            telegram_ready world0)) = []
   \<and> d_message_id discord_ready = Some (PStr ''1001'')
   \<and> fst (DiscordIO_calls env_discord [Write (Some ''10%''), Write (Some ''20%''), Delete]
            discord_ready world0) = Inr (discord_ready\<lparr>d_text := ''20%''\<rparr>)
   \<and> http (snd (DiscordIO_calls env_discord [Write (Some ''10%''), Write (Some ''20%''), Delete]
            discord_ready world0)) = []
   \<and> d_message_id discord_unset = None
   \<and> normalize (Some ''DiscordIO'') = d_text discord_unset
   \<and> DiscordIO_write env_down (Some ''DiscordIO'') discord_unset world0 = (Inr discord_unset, world0)
   \<and> normalize (Some ''10%'') \<noteq> d_text discord_unset
   \<and> http (snd (DiscordIO_write env_down (Some ''10%'') discord_unset world0)) =
       [CreateMessage (PStr ''tok'') (PStr ''chan'') (quoted ''DiscordIO'')]
   \<and> http (snd (DiscordIO_delete env_down discord_unset world0)) =
       [CreateMessage (PStr ''tok'') (PStr ''chan'') (quoted ''DiscordIO'')]
   \<and> DiscordIO_call env_late (Write (Some ''10%'')) discord_unset
        (world0\<lparr>http := [CreateMessage (PStr ''tok'') (PStr ''chan'') (quoted ''DiscordIO'')]\<rparr>) =
       (Inr (discord_unset\<lparr>d_text := ''10%'', d_message_id := Some (PStr ''1001'')\<rparr>),
        world0\<lparr>http := [CreateMessage (PStr ''tok'') (PStr ''chan'') (quoted ''DiscordIO''),
                        CreateMessage (PStr ''tok'') (PStr ''chan'') (quoted ''DiscordIO'')],
               submitted := [EditMessage (PStr ''tok'') (PStr ''chan'') (PStr ''1001'') (quoted ''10%'')]\<rparr>)
   \<and> d_message_id (discord_unset\<lparr>d_text := ''10%'', d_message_id := Some (PStr ''1001'')\<rparr>) =
       Some (PStr ''1001'')
   \<and> http (world0\<lparr>http := [CreateMessage (PStr ''tok'') (PStr ''chan'') (quoted ''DiscordIO''),
                        CreateMessage (PStr ''tok'') (PStr ''chan'') (quoted ''DiscordIO'')],
               submitted := [EditMessage (PStr ''tok'') (PStr ''chan'') (PStr ''1001'') (quoted ''10%'')]\<rparr>) =
       http (world0\<lparr>http := [CreateMessage (PStr ''tok'') (PStr ''chan'') (quoted ''DiscordIO'')]\<rparr>)
         @ [CreateMessage (PStr ''tok'') (PStr ''chan'') (quoted ''DiscordIO'')]
   \<and> (\<exists>res. http_reply env_late
          (length (http (world0\<lparr>http := [CreateMessage (PStr ''tok'') (PStr ''chan'') (quoted ''DiscordIO'')]\<rparr>)))
          = Body res \<and> py_getitem res ''id'' = Inr (PStr ''1001''))"
proof -
  let ?cs = "[Write (Some ''10%''), Write (Some ''20%''), Delete]"
  let ?c = "CreateMessage (PStr ''tok'') (PStr ''chan'') (quoted ''DiscordIO'')"
  let ?w1 = "world0\<lparr>http := [?c]\<rparr>"
  let ?ds' = "discord_unset\<lparr>d_text := ''10%'', d_message_id := Some (PStr ''1001'')\<rparr>"
  let ?w2 = "world0\<lparr>http := [?c, ?c],
               submitted := [EditMessage (PStr ''tok'') (PStr ''chan'') (PStr ''1001'') (quoted ''10%'')]\<rparr>"
  have t: "t_message_id telegram_ready = Some (PInt 7)"
    by (simp add: telegram_ready_def telegram_unset_def)
  have d: "d_message_id discord_ready = Some (PStr ''1001'')"
    by (simp add: discord_ready_def discord_unset_def)
  have u: "d_message_id discord_unset = None" by (simp add: discord_unset_def)
  have fields: "d_token discord_unset = PStr ''tok''" "channel_id discord_unset = PStr ''chan''"
      "d_text discord_unset = ''DiscordIO''"
    by (simp_all add: discord_unset_def)
  have h0: "http world0 = []" by (simp add: world0_def)
  have nd: "normalize (Some ''DiscordIO'') = d_text discord_unset"
    by (simp add: text_defs discord_unset_def)
  have n: "normalize (Some ''10%'') \<noteq> d_text discord_unset"
    by (simp add: text_defs discord_unset_def)
  have rt: "fst (TelegramIO_calls env_telegram ?cs telegram_ready world0)
      = Inr (telegram_ready\<lparr>t_text := ''20%''\<rparr>)"
    by (simp add: sink_defs example_defs text_defs)
  have rd: "fst (DiscordIO_calls env_discord ?cs discord_ready world0)
      = Inr (discord_ready\<lparr>d_text := ''20%''\<rparr>)"
    by (simp add: sink_defs example_defs text_defs)
  have late: "DiscordIO_call env_late (Write (Some ''10%'')) discord_unset ?w1 = (Inr ?ds', ?w2)"
    by (simp add: sink_defs example_defs text_defs)
  have rec: "d_message_id ?ds' = Some (PStr ''1001'')" by simp
  note inst_t = create_request_issuers
    [where e = env_telegram and cs = ?cs and ts = telegram_ready and w = world0]
  note inst_d = create_request_issuers
    [where e = env_discord and cs = ?cs and ds = discord_ready and w = world0
       and v = "PStr ''1001''"]
  note inst_u = create_request_issuers
    [where e = env_down and ds = discord_unset and w = world0 and s = "Some ''10%''",
     THEN conjunct2, THEN conjunct2, THEN conjunct2, THEN conjunct2, THEN conjunct1, THEN mp,
     OF u]
  note inst_r = create_request_issuers
    [where e = env_down and ds = discord_unset and w = world0 and s = "Some ''DiscordIO''",
     THEN conjunct2, THEN conjunct2, THEN conjunct2, THEN conjunct2, THEN conjunct1, THEN mp,
     OF u]
  note inst_l = create_request_issuers
    [where e = env_late and ds = discord_unset and w = ?w1 and c = "Write (Some ''10%'')",
     THEN conjunct2, THEN conjunct2, THEN conjunct2, THEN conjunct2, THEN conjunct1, THEN mp,
     OF u]
  have ht: "http (snd (TelegramIO_calls env_telegram ?cs telegram_ready world0)) = []"
  proof -
    from inst_t obtain ts' w' where
      "TelegramIO_calls env_telegram ?cs telegram_ready world0 = (Inr ts', w')"
      "http w' = http world0"
      by blast
    then show ?thesis by (simp only: snd_conv) (simp add: world0_def)
  qed
  have hd: "http (snd (DiscordIO_calls env_discord ?cs discord_ready world0)) = []"
  proof -
    from inst_d d obtain ds' w' where
      "DiscordIO_calls env_discord ?cs discord_ready world0 = (Inr ds', w')"
      "http w' = http world0"
      by blast
    then show ?thesis by (simp only: snd_conv) (simp add: world0_def)
  qed
  have dedup: "DiscordIO_write env_down (Some ''DiscordIO'') discord_unset world0 = (Inr discord_unset, world0)"
    using inst_r nd by simp
  have hw: "http (snd (DiscordIO_write env_down (Some ''10%'') discord_unset world0)) = [?c]"
    using inst_u n fields h0 by simp
  have hdel: "http (snd (DiscordIO_delete env_down discord_unset world0)) = [?c]"
    using inst_u fields h0 by simp
  have grown: "http ?w2 = http ?w1 @ [?c]
      \<and> (\<exists>res. http_reply env_late (length (http ?w1)) = Body res
            \<and> py_getitem res ''id'' = Inr (PStr ''1001''))"
    using inst_l late rec fields by (metis (no_types, lifting))
  from t rt ht d rd hd u nd dedup n hw hdel late rec grown show ?thesis by blast
qed

text \<open>
  Claim C2 as stated fails on the Discord sink: when the constructor's create request
  fails and the backend answers later, the first \<open>write\<close> with a new text issues a
  second create request, and it is this one that records the identifier.
\<close>

theorem discord_second_create_counterexample:
  "DiscordIO_init env_late (PStr ''tok'') (PStr ''chan'') world0 =
     (Inr discord_unset,
      world0\<lparr>http := [CreateMessage (PStr ''tok'') (PStr ''chan'') (quoted ''DiscordIO'')],
             display := [''connection refused'']\<rparr>)
   \<and> d_message_id discord_unset = None
   \<and> DiscordIO_write env_late (Some ''10%'') discord_unset
        (snd (DiscordIO_init env_late (PStr ''tok'') (PStr ''chan'') world0)) =
     (Inr (discord_unset\<lparr>d_text := ''10%'', d_message_id := Some (PStr ''1001'')\<rparr>),
      world0\<lparr>http := [CreateMessage (PStr ''tok'') (PStr ''chan'') (quoted ''DiscordIO''),
                      CreateMessage (PStr ''tok'') (PStr ''chan'') (quoted ''DiscordIO'')],
             display := [''connection refused''],
             submitted := [EditMessage (PStr ''tok'') (PStr ''chan'') (PStr ''1001'') (quoted ''10%'')]\<rparr>)"
  by (simp add: sink_defs example_defs text_defs)

text \<open>
  Claim C3, amended. On a sink with an identifier, two \<open>write\<close> calls in a row whose
  inputs normalise to the same text submit one edit request when that text differs from
  the text recorded before the first call, and none when it equals it. In both cases
  neither call makes an HTTP call itself, and the second call returns at the duplicate
  check: it leaves the sink and the world as the first call left them.
\<close>

theorem write_twice:
  assumes "normalize s = normalize s'"
  shows "(t_message_id ts = Some m \<longrightarrow>
      (\<exists>ts1 w1. TelegramIO_write e s ts w = (Inr ts1, w1)
          \<and> TelegramIO_write e s' ts1 w1 = (Inr ts1, w1)
          \<and> http w1 = http w
          \<and> submitted w1 =
              (if normalize s = t_text ts then submitted w
               else submitted w @ [EditMessage (t_token ts) (chat_id ts) m (quoted (normalize s))])))
   \<and> (d_message_id ds = Some v \<and> v \<noteq> PNone \<longrightarrow>
      (\<exists>ds1 w1. DiscordIO_write e s ds w = (Inr ds1, w1)
          \<and> DiscordIO_write e s' ds1 w1 = (Inr ds1, w1)
          \<and> http w1 = http w
          \<and> submitted w1 =
              (if normalize s = d_text ds then submitted w
               else submitted w @ [EditMessage (d_token ds) (channel_id ds) v (quoted (normalize s))])))"
proof (intro conjI impI)
  assume "t_message_id ts = Some m"
  then obtain w1 where first: "TelegramIO_write e s ts w = (Inr (ts\<lparr>t_text := normalize s\<rparr>), w1)"
      "http w1 = http w"
      "submitted w1 =
          (if normalize s = t_text ts then submitted w
           else submitted w @ [EditMessage (t_token ts) (chat_id ts) m (quoted (normalize s))])"
    using TelegramIO_write_set [of ts m e s w] by blast
  have "normalize s' = t_text (ts\<lparr>t_text := normalize s\<rparr>)" using assms by simp
  then have "TelegramIO_write e s' (ts\<lparr>t_text := normalize s\<rparr>) w1
      = (Inr (ts\<lparr>t_text := normalize s\<rparr>), w1)"
    by (rule TelegramIO_write_dedup)
  with first show "\<exists>ts1 w1. TelegramIO_write e s ts w = (Inr ts1, w1)
          \<and> TelegramIO_write e s' ts1 w1 = (Inr ts1, w1)
          \<and> http w1 = http w
          \<and> submitted w1 =
              (if normalize s = t_text ts then submitted w
               else submitted w @ [EditMessage (t_token ts) (chat_id ts) m (quoted (normalize s))])"
    by blast
next
  assume "d_message_id ds = Some v \<and> v \<noteq> PNone"
  then obtain w1 where first: "DiscordIO_write e s ds w = (Inr (ds\<lparr>d_text := normalize s\<rparr>), w1)"
      "http w1 = http w"
      "submitted w1 =
          (if normalize s = d_text ds then submitted w
           else submitted w @ [EditMessage (d_token ds) (channel_id ds) v (quoted (normalize s))])"
    using DiscordIO_write_set [of ds v e s w] by blast
  have "normalize s' = d_text (ds\<lparr>d_text := normalize s\<rparr>)" using assms by simp
  then have "DiscordIO_write e s' (ds\<lparr>d_text := normalize s\<rparr>) w1
      = (Inr (ds\<lparr>d_text := normalize s\<rparr>), w1)"
    by (rule DiscordIO_write_dedup)
  with first show "\<exists>ds1 w1. DiscordIO_write e s ds w = (Inr ds1, w1)
          \<and> DiscordIO_write e s' ds1 w1 = (Inr ds1, w1)
          \<and> http w1 = http w
          \<and> submitted w1 =
              (if normalize s = d_text ds then submitted w
               else submitted w @ [EditMessage (d_token ds) (channel_id ds) v (quoted (normalize s))])"
    by blast
qed

text \<open>
  The theorem on both sinks with the inputs \<open>10%\<close> and the same between spaces: one
  edit request is submitted.
\<close>

theorem write_twice_witness:
  "normalize (Some ''10%'') = normalize (Some '' 10% '')
   \<and> t_message_id telegram_ready = Some (PInt 7)
   \<and> normalize (Some ''10%'') \<noteq> t_text telegram_ready
   \<and> submitted (snd (TelegramIO_calls env_telegram [Write (Some ''10%''), Write (Some '' 10% '')]
        telegram_ready world0))
       = [EditMessage (PStr ''tok'') (PStr ''chat'') (PInt 7) (quoted ''10%'')]
   \<and> d_message_id discord_ready = Some (PStr ''1001'')
   \<and> normalize (Some ''10%'') \<noteq> d_text discord_ready
   \<and> submitted (snd (DiscordIO_calls env_discord [Write (Some ''10%''), Write (Some '' 10% '')]
        discord_ready world0))
       = [EditMessage (PStr ''tok'') (PStr ''chan'') (PStr ''1001'') (quoted ''10%'')]"
proof -
  have n: "normalize (Some ''10%'') = normalize (Some '' 10% '')" by (simp add: text_defs)
  have v: "normalize (Some ''10%'') = ''10%''" by (simp add: text_defs)
  have t: "t_message_id telegram_ready = Some (PInt 7)"
    by (simp add: telegram_ready_def telegram_unset_def)
  have d: "d_message_id discord_ready = Some (PStr ''1001'')"
    by (simp add: discord_ready_def discord_unset_def)
  have nt: "normalize (Some ''10%'') \<noteq> t_text telegram_ready"
    by (simp add: v telegram_ready_def telegram_unset_def)
  have nd: "normalize (Some ''10%'') \<noteq> d_text discord_ready"
    by (simp add: v discord_ready_def discord_unset_def)
  note inst_t = write_twice [OF n, where ts = telegram_ready and m = "PInt 7"
      and e = env_telegram and w = world0, THEN conjunct1, THEN mp, OF t]
  have dv: "d_message_id discord_ready = Some (PStr ''1001'') \<and> PStr ''1001'' \<noteq> PNone"
    using d by simp
  note inst_d = write_twice [OF n, where ds = discord_ready and v = "PStr ''1001''"
      and e = env_discord and w = world0, THEN conjunct2, THEN mp, OF dv]
  have st: "submitted (snd (TelegramIO_calls env_telegram [Write (Some ''10%''), Write (Some '' 10% '')]
        telegram_ready world0))
       = [EditMessage (PStr ''tok'') (PStr ''chat'') (PInt 7) (quoted ''10%'')]"
  proof -
    from inst_t nt obtain ts1 w1 where
      "TelegramIO_write env_telegram (Some ''10%'') telegram_ready world0 = (Inr ts1, w1)"
      "TelegramIO_write env_telegram (Some '' 10% '') ts1 w1 = (Inr ts1, w1)"
      "submitted w1 = submitted world0 @
         [EditMessage (t_token telegram_ready) (chat_id telegram_ready) (PInt 7)
            (quoted (normalize (Some ''10%'')))]"
      by auto
    then show ?thesis
      by (simp add: v world0_def telegram_ready_def telegram_unset_def)
  qed
  have sd: "submitted (snd (DiscordIO_calls env_discord [Write (Some ''10%''), Write (Some '' 10% '')]
        discord_ready world0))
       = [EditMessage (PStr ''tok'') (PStr ''chan'') (PStr ''1001'') (quoted ''10%'')]"
  proof -
    from inst_d nd obtain ds1 w1 where
      "DiscordIO_write env_discord (Some ''10%'') discord_ready world0 = (Inr ds1, w1)"
      "DiscordIO_write env_discord (Some '' 10% '') ds1 w1 = (Inr ds1, w1)"
      "submitted w1 = submitted world0 @
         [EditMessage (d_token discord_ready) (channel_id discord_ready) (PStr ''1001'')
            (quoted (normalize (Some ''10%'')))]"
      by auto
    then show ?thesis
      by (simp add: v world0_def discord_ready_def discord_unset_def)
  qed
  from n t nt st d nd sd show ?thesis by blast
qed

text \<open>
  Claim C3 as stated fails when the text is the recorded one: on the sink as the
  constructor leaves it, two writes of the class name submit nothing at all.
\<close>

theorem write_twice_recorded_text_counterexample:
  "TelegramIO_init env_telegram (PStr ''tok'') (PStr ''chat'') world0 =
     (Inr telegram_ready,
      world0\<lparr>sessions := 1,
             http := [CreateMessage (PStr ''tok'') (PStr ''chat'') (quoted ''TelegramIO'')]\<rparr>)
   \<and> t_message_id telegram_ready = Some (PInt 7)
   \<and> normalize (Some ''TelegramIO'') = normalize (Some '' TelegramIO '')
   \<and> TelegramIO_calls env_telegram [Write (Some ''TelegramIO''), Write (Some '' TelegramIO '')]
        telegram_ready world0 = (Inr telegram_ready, world0)
   \<and> submitted world0 = []"
  by (simp add: sink_defs example_defs text_defs)

text \<open>
  Claim C7, at a Discord sink whose constructor could not reach the backend and a
  backend that afterwards answers the create request with a body that is not a JSON
  object. With the body \<open>null\<close>, \<open>"id" in res\<close> raises \<open>TypeError\<close>; with the JSON
  string \<open>"invalid"\<close>, which contains \<open>id\<close>, \<open>res["id"]\<close> raises it. Both lines stand
  in the \<open>else\<close> block of the property, and \<open>write\<close> reads the property before its
  \<open>try\<close>: the exception leaves \<open>write\<close>. \<open>delete\<close> reads the property inside its
  \<open>try\<close> and writes the same exception to the display.
\<close>

theorem DiscordIO_write_raises:
  "DiscordIO_init env_null (PStr ''tok'') (PStr ''chan'') world0 =
     (Inr discord_unset,
      world0\<lparr>http := [CreateMessage (PStr ''tok'') (PStr ''chan'') (quoted ''DiscordIO'')],
             display := [''connection refused'']\<rparr>)
   \<and> DiscordIO_write env_null (Some ''10%'') discord_unset
        (snd (DiscordIO_init env_null (PStr ''tok'') (PStr ''chan'') world0)) =
     (Inl (TypeError ''argument is not iterable''),
      world0\<lparr>http := [CreateMessage (PStr ''tok'') (PStr ''chan'') (quoted ''DiscordIO''),
                      CreateMessage (PStr ''tok'') (PStr ''chan'') (quoted ''DiscordIO'')],
             display := [''connection refused'']\<rparr>)
   \<and> DiscordIO_write env_string (Some ''10%'') discord_unset
        (snd (DiscordIO_init env_string (PStr ''tok'') (PStr ''chan'') world0)) =
     (Inl (TypeError ''indices must be integers or the object is not subscriptable''),
      world0\<lparr>http := [CreateMessage (PStr ''tok'') (PStr ''chan'') (quoted ''DiscordIO''),
                      CreateMessage (PStr ''tok'') (PStr ''chan'') (quoted ''DiscordIO'')],
             display := [''connection refused'']\<rparr>)
   \<and> DiscordIO_delete env_null discord_unset
        (snd (DiscordIO_init env_null (PStr ''tok'') (PStr ''chan'') world0)) =
     (Inr discord_unset,
      world0\<lparr>http := [CreateMessage (PStr ''tok'') (PStr ''chan'') (quoted ''DiscordIO''),
                      CreateMessage (PStr ''tok'') (PStr ''chan'') (quoted ''DiscordIO'')],
             display := [''connection refused'', ''argument is not iterable'']\<rparr>)"
  by (simp add: sink_defs example_defs text_defs)

text \<open>
  Claim C9, at the rate-limit answer of the Telegram backend (error code 429, no
  \<open>result\<close>): the constructor issues the warning and then raises \<open>KeyError\<close> from
  \<open>res.json()['result']\<close>, so no sink exists afterwards, and the meter's constructor
  raises with it.
\<close>

theorem TelegramIO_init_rate_limited:
  "TelegramIO_init env_rate_limited (PStr ''tok'') (PStr ''chat'') world0 =
     (Inl (KeyError ''result''),
      world0\<lparr>sessions := 1,
             http := [CreateMessage (PStr ''tok'') (PStr ''chat'') (quoted ''TelegramIO'')],
             warnings := [too_many_requests]\<rparr>)
   \<and> fst (tqdm_telegram_init env_rate_limited environ base_init Map.empty world0) =
       Inl (KeyError ''result'')"
  by (simp add: tqdm_telegram_init_def kwargs_get_def kwargs_pop_def sink_defs example_defs)

subsection \<open>The meters\<close>

lemma DiscordIO_delete_acts:
  "\<exists>io' w'. DiscordIO_delete e io w = (Inr io', w')
      \<and> length (submitted w') + length (http w') > length (submitted w) + length (http w)"
proof (cases "d_message_id io")
  case None
  obtain io' w' where r: "DiscordIO_delete e io w = (Inr io', w')"
    using DiscordIO_delete_returns by blast
  have h: "http w' = http w @ [CreateMessage (d_token io) (channel_id io) (quoted (d_text io))]"
    using DiscordIO_delete_unset_http [OF None, of e w] r by simp
  obtain rs where "submitted w' = submitted w @ rs"
    using DiscordIO_call_submitted [of e Delete io w] r by auto
  with r h show ?thesis by simp
next
  case (Some v)
  then show ?thesis
    by (auto simp: DiscordIO_delete_def DiscordIO_delete_try_def DiscordIO_message_id_set
          tqdm_write_def split: prod.splits sum.splits dest!: submit_world)
qed

lemma TelegramIO_delete_acts:
  "\<exists>w'. TelegramIO_delete e io w = (Inr io, w')
      \<and> length (submitted w') + length (display w') > length (submitted w) + length (display w)"
  by (auto simp: TelegramIO_delete_def TelegramIO_delete_try_def tqdm_write_def
           split: prod.splits sum.splits option.splits dest!: submit_world)

text \<open>
  Claim C5. \<open>close\<close> of a disabled meter changes neither the meter nor the world.
  Otherwise the base \<open>close\<close> runs first (when it raises, nothing else happens); then,
  with the flags as the base \<open>close\<close> left them, the sink is left alone when \<open>leave\<close>
  is true or \<open>leave\<close> is \<open>None\<close> and \<open>pos\<close> is 0, and in every other case the
  result is that of \<open>delete\<close> on the sink, which changes the world.
\<close>

theorem close_deletes_unless_kept:
  "(truthy (disable dm) \<longrightarrow> tqdm_discord_close e dclose dm w = (Inr dm, w))
   \<and> (\<not> truthy (disable dm) \<and> dclose dm = Inl x \<longrightarrow>
        tqdm_discord_close e dclose dm w = (Inl x, w))
   \<and> (\<not> truthy (disable dm) \<and> dclose dm = Inr dm1
        \<and> (truthy (leave dm1) \<or> (leave dm1 = PNone \<and> pos dm1 = 0)) \<longrightarrow>
        tqdm_discord_close e dclose dm w = (Inr dm1, w))
   \<and> (\<not> truthy (disable dm) \<and> dclose dm = Inr dm1
        \<and> \<not> (truthy (leave dm1) \<or> (leave dm1 = PNone \<and> pos dm1 = 0)) \<and> dio dm1 = Some ds \<longrightarrow>
        (\<exists>ds' w'. DiscordIO_delete e ds w = (Inr ds', w') \<and> w' \<noteq> w
            \<and> tqdm_discord_close e dclose dm w = (Inr (dm1\<lparr>dio := Some ds'\<rparr>), w')))
   \<and> (truthy (disable tm) \<longrightarrow> tqdm_telegram_close e tclose tm w = (Inr tm, w))
   \<and> (\<not> truthy (disable tm) \<and> tclose tm = Inl x \<longrightarrow>
        tqdm_telegram_close e tclose tm w = (Inl x, w))
   \<and> (\<not> truthy (disable tm) \<and> tclose tm = Inr tm1
        \<and> (truthy (leave tm1) \<or> (leave tm1 = PNone \<and> pos tm1 = 0)) \<longrightarrow>
        tqdm_telegram_close e tclose tm w = (Inr tm1, w))
   \<and> (\<not> truthy (disable tm) \<and> tclose tm = Inr tm1
        \<and> \<not> (truthy (leave tm1) \<or> (leave tm1 = PNone \<and> pos tm1 = 0)) \<and> tgio tm1 = Some ts \<longrightarrow>
        (\<exists>ts' w'. TelegramIO_delete e ts w = (Inr ts', w') \<and> w' \<noteq> w
            \<and> tqdm_telegram_close e tclose tm w = (Inr (tm1\<lparr>tgio := Some ts'\<rparr>), w')))"
proof -
  have d_off: "truthy (disable dm) \<longrightarrow> tqdm_discord_close e dclose dm w = (Inr dm, w)"
    by (simp add: tqdm_discord_close_def)
  have d_raise: "\<not> truthy (disable dm) \<and> dclose dm = Inl x \<longrightarrow>
        tqdm_discord_close e dclose dm w = (Inl x, w)"
    by (simp add: tqdm_discord_close_def)
  have d_keep: "\<not> truthy (disable dm) \<and> dclose dm = Inr dm1
        \<and> (truthy (leave dm1) \<or> (leave dm1 = PNone \<and> pos dm1 = 0)) \<longrightarrow>
        tqdm_discord_close e dclose dm w = (Inr dm1, w)"
    by (simp add: tqdm_discord_close_def keeps_bar_def)
  have d_del: "\<not> truthy (disable dm) \<and> dclose dm = Inr dm1
        \<and> \<not> (truthy (leave dm1) \<or> (leave dm1 = PNone \<and> pos dm1 = 0)) \<and> dio dm1 = Some ds \<longrightarrow>
        (\<exists>ds' w'. DiscordIO_delete e ds w = (Inr ds', w') \<and> w' \<noteq> w
            \<and> tqdm_discord_close e dclose dm w = (Inr (dm1\<lparr>dio := Some ds'\<rparr>), w'))"
  proof -
    obtain ds' w' where del: "DiscordIO_delete e ds w = (Inr ds', w')"
        "length (submitted w') + length (http w') > length (submitted w) + length (http w)"
      using DiscordIO_delete_acts [of e ds w] by blast
    then have "w' \<noteq> w" by auto
    with del show ?thesis by (simp add: tqdm_discord_close_def keeps_bar_def)
  qed
  have t_off: "truthy (disable tm) \<longrightarrow> tqdm_telegram_close e tclose tm w = (Inr tm, w)"
    by (simp add: tqdm_telegram_close_def)
  have t_raise: "\<not> truthy (disable tm) \<and> tclose tm = Inl x \<longrightarrow>
        tqdm_telegram_close e tclose tm w = (Inl x, w)"
    by (simp add: tqdm_telegram_close_def)
  have t_keep: "\<not> truthy (disable tm) \<and> tclose tm = Inr tm1
        \<and> (truthy (leave tm1) \<or> (leave tm1 = PNone \<and> pos tm1 = 0)) \<longrightarrow>
        tqdm_telegram_close e tclose tm w = (Inr tm1, w)"
    by (simp add: tqdm_telegram_close_def keeps_bar_def)
  have t_del: "\<not> truthy (disable tm) \<and> tclose tm = Inr tm1
        \<and> \<not> (truthy (leave tm1) \<or> (leave tm1 = PNone \<and> pos tm1 = 0)) \<and> tgio tm1 = Some ts \<longrightarrow>
        (\<exists>ts' w'. TelegramIO_delete e ts w = (Inr ts', w') \<and> w' \<noteq> w
            \<and> tqdm_telegram_close e tclose tm w = (Inr (tm1\<lparr>tgio := Some ts'\<rparr>), w'))"
  proof -
    obtain w' where del: "TelegramIO_delete e ts w = (Inr ts, w')"
        "length (submitted w') + length (display w') > length (submitted w) + length (display w)"
      using TelegramIO_delete_acts [of e ts w] by blast
    then have "w' \<noteq> w" by auto
    with del show ?thesis by (simp add: tqdm_telegram_close_def keeps_bar_def)
  qed
  from d_off d_raise d_keep d_del t_off t_raise t_keep t_del show ?thesis by blast
qed

lemma pop_channel_after_token:
  "fst (kwargs_pop (snd (kwargs_pop kwargs ''token'' a)) ''channel_id'' b) =
   fst (kwargs_pop kwargs ''channel_id'' b)"
  "fst (kwargs_pop (snd (kwargs_pop kwargs ''token'' a)) ''chat_id'' b) =
   fst (kwargs_pop kwargs ''chat_id'' b)"
  by (simp_all add: kwargs_pop_def)

text \<open>
  Claim C6. When \<open>disable\<close> is truthy in the keyword arguments, the constructor
  leaves the world as it was (no HTTP call, no session) and a meter it returns has no
  sink. When it is not, the sink's constructor runs (its create request is the next
  HTTP call, and the Telegram sink opens a session) and a meter the constructor
  returns has a sink.
\<close>

theorem sink_only_when_enabled:
  "(truthy (kwargs_get kwargs ''disable'') \<longrightarrow>
      snd (tqdm_discord_init e environ binit kwargs w) = w
      \<and> (\<forall>m. fst (tqdm_discord_init e environ binit kwargs w) = Inr m \<longrightarrow> dio m = None)
      \<and> snd (tqdm_telegram_init e environ binit kwargs w) = w
      \<and> (\<forall>m. fst (tqdm_telegram_init e environ binit kwargs w) = Inr m \<longrightarrow> tgio m = None))
   \<and> (\<not> truthy (kwargs_get kwargs ''disable'') \<longrightarrow>
      http (snd (tqdm_discord_init e environ binit kwargs w)) =
        http w @ [CreateMessage (fst (kwargs_pop kwargs ''token'' (getenv environ ''TQDM_DISCORD_TOKEN'')))
                    (fst (kwargs_pop kwargs ''channel_id'' (getenv environ ''TQDM_DISCORD_CHANNEL_ID'')))
                    (quoted ''DiscordIO'')]
      \<and> (\<forall>m. fst (tqdm_discord_init e environ binit kwargs w) = Inr m \<longrightarrow> dio m \<noteq> None)
      \<and> sessions (snd (tqdm_telegram_init e environ binit kwargs w)) = sessions w + 1
      \<and> http (snd (tqdm_telegram_init e environ binit kwargs w)) =
        http w @ [CreateMessage (fst (kwargs_pop kwargs ''token'' (getenv environ ''TQDM_TELEGRAM_TOKEN'')))
                    (fst (kwargs_pop kwargs ''chat_id'' (getenv environ ''TQDM_TELEGRAM_CHAT_ID'')))
                    (quoted ''TelegramIO'')]
      \<and> (\<forall>m. fst (tqdm_telegram_init e environ binit kwargs w) = Inr m \<longrightarrow> tgio m \<noteq> None))"
proof (intro conjI impI allI)
  assume off: "truthy (kwargs_get kwargs ''disable'')"
  show "snd (tqdm_discord_init e environ binit kwargs w) = w"
    using off by (simp add: tqdm_discord_init_def split: sum.splits)
  show "snd (tqdm_telegram_init e environ binit kwargs w) = w"
    using off by (simp add: tqdm_telegram_init_def split: sum.splits)
  fix m
  assume "fst (tqdm_discord_init e environ binit kwargs w) = Inr m"
  then show "dio m = None"
    using off by (auto simp: tqdm_discord_init_def split: sum.splits)
next
  fix m
  assume off: "truthy (kwargs_get kwargs ''disable'')"
    and "fst (tqdm_telegram_init e environ binit kwargs w) = Inr m"
  then show "tgio m = None"
    by (auto simp: tqdm_telegram_init_def split: sum.splits)
next
  assume on: "\<not> truthy (kwargs_get kwargs ''disable'')"
  show "http (snd (tqdm_discord_init e environ binit kwargs w)) =
        http w @ [CreateMessage (fst (kwargs_pop kwargs ''token'' (getenv environ ''TQDM_DISCORD_TOKEN'')))
                    (fst (kwargs_pop kwargs ''channel_id'' (getenv environ ''TQDM_DISCORD_CHANNEL_ID'')))
                    (quoted ''DiscordIO'')]"
    using on DiscordIO_init_http
      [of e "fst (kwargs_pop kwargs ''token'' (getenv environ ''TQDM_DISCORD_TOKEN''))"
          "fst (kwargs_pop kwargs ''channel_id'' (getenv environ ''TQDM_DISCORD_CHANNEL_ID''))" w]
      pop_channel_after_token(1) [of kwargs "getenv environ ''TQDM_DISCORD_TOKEN''"
          "getenv environ ''TQDM_DISCORD_CHANNEL_ID''"]
    by (auto simp: tqdm_discord_init_def split: prod.splits sum.splits)
  have tg: "http (snd (TelegramIO_init e
              (fst (kwargs_pop kwargs ''token'' (getenv environ ''TQDM_TELEGRAM_TOKEN'')))
              (fst (kwargs_pop kwargs ''chat_id'' (getenv environ ''TQDM_TELEGRAM_CHAT_ID''))) w)) =
        http w @ [CreateMessage (fst (kwargs_pop kwargs ''token'' (getenv environ ''TQDM_TELEGRAM_TOKEN'')))
                    (fst (kwargs_pop kwargs ''chat_id'' (getenv environ ''TQDM_TELEGRAM_CHAT_ID'')))
                    (quoted ''TelegramIO'')]"
    by (rule TelegramIO_init_http)
  show "http (snd (tqdm_telegram_init e environ binit kwargs w)) =
        http w @ [CreateMessage (fst (kwargs_pop kwargs ''token'' (getenv environ ''TQDM_TELEGRAM_TOKEN'')))
                    (fst (kwargs_pop kwargs ''chat_id'' (getenv environ ''TQDM_TELEGRAM_CHAT_ID'')))
                    (quoted ''TelegramIO'')]"
    using on tg pop_channel_after_token(2) [of kwargs "getenv environ ''TQDM_TELEGRAM_TOKEN''"
          "getenv environ ''TQDM_TELEGRAM_CHAT_ID''"]
    by (auto simp: tqdm_telegram_init_def split: prod.splits sum.splits)
  have ss: "sessions (snd (TelegramIO_init e tok ch w)) = sessions w + 1" for tok ch
    by (simp add: TelegramIO_init_def http_call_def Let_def tqdm_write_def warn_def
             split: reply.splits option.splits sum.splits)
  show "sessions (snd (tqdm_telegram_init e environ binit kwargs w)) = sessions w + 1"
    using on ss
      [of "fst (kwargs_pop kwargs ''token'' (getenv environ ''TQDM_TELEGRAM_TOKEN''))"
          "fst (kwargs_pop (snd (kwargs_pop kwargs ''token'' (getenv environ ''TQDM_TELEGRAM_TOKEN'')))
                 ''chat_id'' (getenv environ ''TQDM_TELEGRAM_CHAT_ID''))"]
    by (auto simp: tqdm_telegram_init_def split: prod.splits sum.splits)
  fix m
  assume "fst (tqdm_discord_init e environ binit kwargs w) = Inr m"
  then show "dio m \<noteq> None"
    using on by (auto simp: tqdm_discord_init_def split: prod.splits sum.splits)
next
  fix m
  assume on: "\<not> truthy (kwargs_get kwargs ''disable'')"
    and "fst (tqdm_telegram_init e environ binit kwargs w) = Inr m"
  then show "tgio m \<noteq> None"
    by (auto simp: tqdm_telegram_init_def split: prod.splits sum.splits)
qed

text \<open>
  The theorem on a disabled meter, on the outermost bar with \<open>leave\<close> unset, on a
  nested bar with \<open>leave\<close> unset, and on bars with \<open>leave\<close> given.
\<close>

theorem close_deletes_unless_kept_witness:
  "tqdm_discord_close env_discord (\<lambda>m. Inr (m\<lparr>disable := PBool True\<rparr>))
      \<lparr>disable = PBool True, leave = PBool False, pos = 1, dio = None\<rparr> world0 =
     (Inr \<lparr>disable = PBool True, leave = PBool False, pos = 1, dio = None\<rparr>, world0)
   \<and> tqdm_discord_close env_discord (\<lambda>m. Inr (m\<lparr>disable := PBool True\<rparr>))
      \<lparr>disable = PBool False, leave = PNone, pos = 0, dio = Some discord_ready\<rparr> world0 =
     (Inr \<lparr>disable = PBool True, leave = PNone, pos = 0, dio = Some discord_ready\<rparr>, world0)
   \<and> submitted (snd (tqdm_discord_close env_discord (\<lambda>m. Inr (m\<lparr>disable := PBool True\<rparr>))
      \<lparr>disable = PBool False, leave = PNone, pos = 1, dio = Some discord_ready\<rparr> world0)) =
     [DeleteMessage (PStr ''tok'') (PStr ''chan'') (PStr ''1001'')]
   \<and> tqdm_telegram_close env_telegram (\<lambda>m. Inr (m\<lparr>disable := PBool True\<rparr>))
      \<lparr>disable = PBool False, leave = PBool True, pos = 1, tgio = Some telegram_ready\<rparr> world0 =
     (Inr \<lparr>disable = PBool True, leave = PBool True, pos = 1, tgio = Some telegram_ready\<rparr>, world0)
   \<and> submitted (snd (tqdm_telegram_close env_telegram (\<lambda>m. Inr (m\<lparr>disable := PBool True\<rparr>))
      \<lparr>disable = PBool False, leave = PBool False, pos = 0, tgio = Some telegram_ready\<rparr> world0)) =
     [DeleteMessage (PStr ''tok'') (PStr ''chat'') (PInt 7)]"
proof -
  let ?dclose = "\<lambda>m :: tqdm_discord. (Inr (m\<lparr>disable := PBool True\<rparr>) :: error + tqdm_discord)"
  let ?tclose = "\<lambda>m :: tqdm_telegram. (Inr (m\<lparr>disable := PBool True\<rparr>) :: error + tqdm_telegram)"
  have a: "tqdm_discord_close env_discord ?dclose
      \<lparr>disable = PBool True, leave = PBool False, pos = 1, dio = None\<rparr> world0 =
     (Inr \<lparr>disable = PBool True, leave = PBool False, pos = 1, dio = None\<rparr>, world0)"
    using close_deletes_unless_kept
      [where dm = "\<lparr>disable = PBool True, leave = PBool False, pos = 1, dio = None\<rparr>"
         and e = env_discord and dclose = ?dclose and w = world0]
    by simp
  have b: "tqdm_discord_close env_discord ?dclose
      \<lparr>disable = PBool False, leave = PNone, pos = 0, dio = Some discord_ready\<rparr> world0 =
     (Inr \<lparr>disable = PBool True, leave = PNone, pos = 0, dio = Some discord_ready\<rparr>, world0)"
    using close_deletes_unless_kept
      [where dm = "\<lparr>disable = PBool False, leave = PNone, pos = 0, dio = Some discord_ready\<rparr>"
         and ?dm1.0 = "\<lparr>disable = PBool True, leave = PNone, pos = 0, dio = Some discord_ready\<rparr>"
         and e = env_discord and dclose = ?dclose and w = world0]
    by simp
  have c: "submitted (snd (tqdm_discord_close env_discord ?dclose
      \<lparr>disable = PBool False, leave = PNone, pos = 1, dio = Some discord_ready\<rparr> world0)) =
     [DeleteMessage (PStr ''tok'') (PStr ''chan'') (PStr ''1001'')]"
  proof -
    have del: "DiscordIO_delete env_discord discord_ready world0 =
        (Inr discord_ready,
         world0\<lparr>submitted := [DeleteMessage (PStr ''tok'') (PStr ''chan'') (PStr ''1001'')]\<rparr>)"
      by (simp add: sink_defs example_defs)
    have "\<exists>ds' w'. DiscordIO_delete env_discord discord_ready world0 = (Inr ds', w') \<and> w' \<noteq> world0
        \<and> tqdm_discord_close env_discord ?dclose
            \<lparr>disable = PBool False, leave = PNone, pos = 1, dio = Some discord_ready\<rparr> world0 =
          (Inr (\<lparr>disable = PBool True, leave = PNone, pos = 1, dio = Some discord_ready\<rparr>
                  \<lparr>dio := Some ds'\<rparr>), w')"
      using close_deletes_unless_kept
        [where dm = "\<lparr>disable = PBool False, leave = PNone, pos = 1, dio = Some discord_ready\<rparr>"
           and ?dm1.0 = "\<lparr>disable = PBool True, leave = PNone, pos = 1, dio = Some discord_ready\<rparr>"
           and ds = discord_ready and e = env_discord and dclose = ?dclose and w = world0]
      by simp
    with del show ?thesis by auto
  qed
  have d: "tqdm_telegram_close env_telegram ?tclose
      \<lparr>disable = PBool False, leave = PBool True, pos = 1, tgio = Some telegram_ready\<rparr> world0 =
     (Inr \<lparr>disable = PBool True, leave = PBool True, pos = 1, tgio = Some telegram_ready\<rparr>, world0)"
    using close_deletes_unless_kept
      [where tm = "\<lparr>disable = PBool False, leave = PBool True, pos = 1, tgio = Some telegram_ready\<rparr>"
         and ?tm1.0 = "\<lparr>disable = PBool True, leave = PBool True, pos = 1, tgio = Some telegram_ready\<rparr>"
         and e = env_telegram and tclose = ?tclose and w = world0]
    by simp
  have f: "submitted (snd (tqdm_telegram_close env_telegram ?tclose
      \<lparr>disable = PBool False, leave = PBool False, pos = 0, tgio = Some telegram_ready\<rparr> world0)) =
     [DeleteMessage (PStr ''tok'') (PStr ''chat'') (PInt 7)]"
  proof -
    have del: "TelegramIO_delete env_telegram telegram_ready world0 =
        (Inr telegram_ready,
         world0\<lparr>submitted := [DeleteMessage (PStr ''tok'') (PStr ''chat'') (PInt 7)]\<rparr>)"
      by (simp add: sink_defs example_defs)
    have "\<exists>ts' w'. TelegramIO_delete env_telegram telegram_ready world0 = (Inr ts', w') \<and> w' \<noteq> world0
        \<and> tqdm_telegram_close env_telegram ?tclose
            \<lparr>disable = PBool False, leave = PBool False, pos = 0, tgio = Some telegram_ready\<rparr> world0 =
          (Inr (\<lparr>disable = PBool True, leave = PBool False, pos = 0, tgio = Some telegram_ready\<rparr>
                  \<lparr>tgio := Some ts'\<rparr>), w')"
      using close_deletes_unless_kept
        [where tm = "\<lparr>disable = PBool False, leave = PBool False, pos = 0, tgio = Some telegram_ready\<rparr>"
           and ?tm1.0 = "\<lparr>disable = PBool True, leave = PBool False, pos = 0, tgio = Some telegram_ready\<rparr>"
           and ts = telegram_ready and e = env_telegram and tclose = ?tclose and w = world0]
      by simp
    with del show ?thesis by auto
  qed
  from a b c d f show ?thesis by blast
qed

text \<open>
  The theorem with \<open>disable=True\<close> and without it, on a base constructor that keeps the
  flags it is given.
\<close>

theorem sink_only_when_enabled_witness:
  "truthy (kwargs_get [''disable'' \<mapsto> PBool True, ''token'' \<mapsto> PStr ''tok''] ''disable'')
   \<and> tqdm_discord_init env_discord Map.empty
        (\<lambda>k. Inr \<lparr>disable = kwargs_get k ''disable'', leave = kwargs_get k ''leave'', pos = 0\<rparr>)
        [''disable'' \<mapsto> PBool True, ''token'' \<mapsto> PStr ''tok''] world0 =
       (Inr \<lparr>disable = PBool True, leave = PNone, pos = 0, dio = None\<rparr>, world0)
   \<and> tqdm_telegram_init env_telegram Map.empty
        (\<lambda>k. Inr \<lparr>disable = kwargs_get k ''disable'', leave = kwargs_get k ''leave'', pos = 0\<rparr>)
        [''disable'' \<mapsto> PBool True, ''token'' \<mapsto> PStr ''tok''] world0 =
       (Inr \<lparr>disable = PBool True, leave = PNone, pos = 0, tgio = None\<rparr>, world0)
   \<and> \<not> truthy (kwargs_get [''token'' \<mapsto> PStr ''tok''] ''disable'')
   \<and> fst (tqdm_discord_init env_discord [''TQDM_DISCORD_CHANNEL_ID'' \<mapsto> ''chan'']
        (\<lambda>k. Inr \<lparr>disable = kwargs_get k ''disable'', leave = kwargs_get k ''leave'', pos = 0\<rparr>)
        [''token'' \<mapsto> PStr ''tok''] world0) =
       Inr \<lparr>disable = PNone, leave = PNone, pos = 0, dio = Some discord_ready\<rparr>
   \<and> http (snd (tqdm_discord_init env_discord [''TQDM_DISCORD_CHANNEL_ID'' \<mapsto> ''chan'']
        (\<lambda>k. Inr \<lparr>disable = kwargs_get k ''disable'', leave = kwargs_get k ''leave'', pos = 0\<rparr>)
        [''token'' \<mapsto> PStr ''tok''] world0)) =
       [CreateMessage (PStr ''tok'') (PStr ''chan'') (quoted ''DiscordIO'')]
   \<and> fst (tqdm_telegram_init env_telegram [''TQDM_TELEGRAM_CHAT_ID'' \<mapsto> ''chat'']
        (\<lambda>k. Inr \<lparr>disable = kwargs_get k ''disable'', leave = kwargs_get k ''leave'', pos = 0\<rparr>)
        [''token'' \<mapsto> PStr ''tok''] world0) =
       Inr \<lparr>disable = PNone, leave = PNone, pos = 0, tgio = Some telegram_ready\<rparr>
   \<and> http (snd (tqdm_telegram_init env_telegram [''TQDM_TELEGRAM_CHAT_ID'' \<mapsto> ''chat'']
        (\<lambda>k. Inr \<lparr>disable = kwargs_get k ''disable'', leave = kwargs_get k ''leave'', pos = 0\<rparr>)
        [''token'' \<mapsto> PStr ''tok''] world0)) =
       [CreateMessage (PStr ''tok'') (PStr ''chat'') (quoted ''TelegramIO'')]
   \<and> sessions (snd (tqdm_telegram_init env_telegram [''TQDM_TELEGRAM_CHAT_ID'' \<mapsto> ''chat'']
        (\<lambda>k. Inr \<lparr>disable = kwargs_get k ''disable'', leave = kwargs_get k ''leave'', pos = 0\<rparr>)
        [''token'' \<mapsto> PStr ''tok''] world0)) = 1"
proof -
  let ?binit = "\<lambda>k. (Inr \<lparr>disable = kwargs_get k ''disable'', leave = kwargs_get k ''leave'', pos = 0\<rparr>
                      :: error + base)"
  let ?off = "[''disable'' \<mapsto> PBool True, ''token'' \<mapsto> PStr ''tok'']"
  let ?on = "[''token'' \<mapsto> PStr ''tok'']"
  have off: "truthy (kwargs_get ?off ''disable'')" by (simp add: kwargs_get_def)
  have on: "\<not> truthy (kwargs_get ?on ''disable'')" by (simp add: kwargs_get_def)
  have d_off: "fst (tqdm_discord_init env_discord Map.empty ?binit ?off world0) =
       Inr \<lparr>disable = PBool True, leave = PNone, pos = 0, dio = None\<rparr>"
    by (simp add: tqdm_discord_init_def kwargs_get_def)
  have t_off: "fst (tqdm_telegram_init env_telegram Map.empty ?binit ?off world0) =
       Inr \<lparr>disable = PBool True, leave = PNone, pos = 0, tgio = None\<rparr>"
    by (simp add: tqdm_telegram_init_def kwargs_get_def set_mininterval_def kwargs_pop_def)
  have d_on: "fst (tqdm_discord_init env_discord [''TQDM_DISCORD_CHANNEL_ID'' \<mapsto> ''chan''] ?binit ?on world0) =
       Inr \<lparr>disable = PNone, leave = PNone, pos = 0, dio = Some discord_ready\<rparr>"
    by (simp add: tqdm_discord_init_def kwargs_get_def kwargs_pop_def getenv_def sink_defs
          example_defs)
  have t_on: "fst (tqdm_telegram_init env_telegram [''TQDM_TELEGRAM_CHAT_ID'' \<mapsto> ''chat''] ?binit ?on world0) =
       Inr \<lparr>disable = PNone, leave = PNone, pos = 0, tgio = Some telegram_ready\<rparr>"
    by (simp add: tqdm_telegram_init_def kwargs_get_def kwargs_pop_def getenv_def sink_defs
          set_mininterval_def example_defs)
  note inst_off_d = sink_only_when_enabled
    [where kwargs = ?off and binit = ?binit and w = world0 and environ = Map.empty
       and e = env_discord,
     THEN conjunct1, THEN mp, OF off]
  note inst_off_t = sink_only_when_enabled
    [where kwargs = ?off and binit = ?binit and w = world0 and environ = Map.empty
       and e = env_telegram,
     THEN conjunct1, THEN mp, OF off]
  note inst_d = sink_only_when_enabled
    [where kwargs = ?on and binit = ?binit and w = world0 and e = env_discord
       and environ = "[''TQDM_DISCORD_CHANNEL_ID'' \<mapsto> ''chan'']",
     THEN conjunct2, THEN mp, OF on]
  note inst_t = sink_only_when_enabled
    [where kwargs = ?on and binit = ?binit and w = world0 and e = env_telegram
       and environ = "[''TQDM_TELEGRAM_CHAT_ID'' \<mapsto> ''chat'']",
     THEN conjunct2, THEN mp, OF on]
  have a: "tqdm_discord_init env_discord Map.empty ?binit ?off world0 =
       (Inr \<lparr>disable = PBool True, leave = PNone, pos = 0, dio = None\<rparr>, world0)"
    using inst_off_d d_off by (simp add: prod_eq_iff)
  have b: "tqdm_telegram_init env_telegram Map.empty ?binit ?off world0 =
       (Inr \<lparr>disable = PBool True, leave = PNone, pos = 0, tgio = None\<rparr>, world0)"
    using inst_off_t t_off by (simp add: prod_eq_iff)
  have c: "http (snd (tqdm_discord_init env_discord [''TQDM_DISCORD_CHANNEL_ID'' \<mapsto> ''chan''] ?binit ?on world0)) =
       [CreateMessage (PStr ''tok'') (PStr ''chan'') (quoted ''DiscordIO'')]"
    using inst_d by (simp add: kwargs_pop_def getenv_def world0_def)
  have d: "http (snd (tqdm_telegram_init env_telegram [''TQDM_TELEGRAM_CHAT_ID'' \<mapsto> ''chat''] ?binit ?on world0)) =
       [CreateMessage (PStr ''tok'') (PStr ''chat'') (quoted ''TelegramIO'')]"
    using inst_t by (simp add: kwargs_pop_def getenv_def world0_def)
  have f: "sessions (snd (tqdm_telegram_init env_telegram [''TQDM_TELEGRAM_CHAT_ID'' \<mapsto> ''chat''] ?binit ?on world0)) = 1"
    using inst_t by (simp add: world0_def)
  from off a b on d_on c t_on d f show ?thesis by blast
qed

subsection \<open>Redirected logging\<close>










subsection \<open>The dispatcher\<close>

lemma first_with_Some:
  "first_with s d = Some h \<Longrightarrow>
   h < length (states d) \<and> states d ! h = s \<and> (\<forall>j<h. states d ! j \<noteq> s)"
  unfolding first_with_def find_Some_iff by auto

lemma run_append: "run (evs @ evs') d = run evs' (run evs d)"
  by (induction evs arbitrary: d) auto

lemma inv_new: "dispatcher_inv new_dispatcher"
  by (simp add: dispatcher_inv_def new_dispatcher_def)

lemma evict_fields:
  "started (evict d) = started d"
  "length (states (evict d)) = length (states d)"
  "length (backlog (evict d)) = length (backlog d) - 1"
  "backlog (evict d) = tl (backlog d)"
  by (auto simp: evict_def Let_def split: list.splits)

lemma evict_states:
  "states (evict d) ! h = states d ! h \<or>
   (h < length (states d) \<and> states d ! h = Pending \<and> states (evict d) ! h = Cancelled)"
  by (auto simp: evict_def Let_def status_of_def nth_list_update split: list.splits if_splits)

lemma inv_evict:
  assumes "length (backlog d) \<le> Suc capacity"
    and "\<forall>h \<in> set (started d). h < length (states d)
            \<and> (states d ! h = Running \<or> states d ! h = Done)"
    and "sorted_wrt (<) (started d)"
    and "\<forall>h \<in> set (started d). \<forall>h' < length (states d). states d ! h' = Pending \<longrightarrow> h < h'"
    and "backlog d \<noteq> []"
    and "\<forall>h \<in> set (backlog d). h < length (states d)"
  shows "dispatcher_inv (evict d)"
proof -
  have a: "length (backlog (evict d)) \<le> capacity"
    using assms(1,5) by (simp add: evict_fields)
  have b: "\<forall>h \<in> set (started d). states (evict d) ! h = states d ! h"
    using assms(2) evict_states [of d] by (metis status.distinct(1,3))
  have c: "\<forall>h'. states (evict d) ! h' = Pending \<longrightarrow> states d ! h' = Pending"
    using evict_states [of d] by (metis status.distinct(5))
  have f: "\<forall>h \<in> set (backlog (evict d)). h < length (states (evict d))"
    using assms(6) by (auto simp: evict_fields dest: list.set_sel(2) [OF assms(5)])
  show ?thesis
    unfolding dispatcher_inv_def using a b c f assms(2,3,4) by (simp add: evict_fields(1,2))
qed

lemma inv_submit: "dispatcher_inv d \<Longrightarrow> dispatcher_inv (MonoWorker_submit d)"
proof -
  assume i: "dispatcher_inv d"
  let ?d1 = "d\<lparr>states := states d @ [Pending], backlog := backlog d @ [length (states d)]\<rparr>"
  have s2: "\<forall>h \<in> set (started ?d1). h < length (states ?d1)
            \<and> (states ?d1 ! h = Running \<or> states ?d1 ! h = Done)"
    using i by (auto simp: dispatcher_inv_def nth_append)
  have s3: "sorted_wrt (<) (started ?d1)" using i by (simp add: dispatcher_inv_def)
  have s4: "\<forall>h \<in> set (started ?d1). \<forall>h' < length (states ?d1). states ?d1 ! h' = Pending \<longrightarrow> h < h'"
  proof (intro ballI allI impI)
    fix h h'
    assume h: "h \<in> set (started ?d1)" and h': "h' < length (states ?d1)"
      and p: "states ?d1 ! h' = Pending"
    from h i have hl: "h < length (states d)" by (simp add: dispatcher_inv_def)
    show "h < h'"
    proof (cases "h' < length (states d)")
      case True
      with p have "states d ! h' = Pending" by (simp add: nth_append)
      with i h True show ?thesis by (simp add: dispatcher_inv_def)
    next
      case False
      with hl show ?thesis by simp
    qed
  qed
  have s5: "\<forall>h \<in> set (backlog ?d1). h < length (states ?d1)"
    using i by (auto simp: dispatcher_inv_def)
  show ?thesis
  proof (cases "length (backlog ?d1) > capacity")
    case True
    have len: "length (backlog ?d1) \<le> Suc capacity" using i by (simp add: dispatcher_inv_def)
    have ne: "backlog ?d1 \<noteq> []" by simp
    have "dispatcher_inv (evict ?d1)" using len s2 s3 s4 ne s5 by (rule inv_evict)
    with True show ?thesis by (simp add: MonoWorker_submit_def Let_def)
  next
    case False
    then have "dispatcher_inv ?d1"
      unfolding dispatcher_inv_def using s2 s3 s4 s5 by simp
    with False show ?thesis by (simp add: MonoWorker_submit_def Let_def)
  qed
qed

lemma inv_start: "dispatcher_inv d \<Longrightarrow> dispatcher_inv (worker_start d)"
proof -
  assume i: "dispatcher_inv d"
  show ?thesis
  proof (cases "first_with Running d")
    case (Some r)
    with i show ?thesis by (simp add: worker_start_def)
  next
    case None
    show ?thesis
    proof (cases "first_with Pending d")
      case no: None
      with None i show ?thesis by (simp add: worker_start_def)
    next
      case (Some h0)
      from first_with_Some [OF Some] have h0: "h0 < length (states d)" "states d ! h0 = Pending"
          "\<forall>j<h0. states d ! j \<noteq> Pending"
        by simp_all
      let ?d' = "d\<lparr>states := (states d)[h0 := Running], started := started d @ [h0]\<rparr>"
      have eq: "worker_start d = ?d'" using None Some by (simp add: worker_start_def)
      have old: "\<forall>h \<in> set (started d). h \<noteq> h0 \<and> h < h0"
        using i h0(1,2) by (auto simp: dispatcher_inv_def)
      have a: "length (backlog ?d') \<le> capacity" using i by (simp add: dispatcher_inv_def)
      have b: "\<forall>h \<in> set (started ?d'). h < length (states ?d')
            \<and> (states ?d' ! h = Running \<or> states ?d' ! h = Done)"
        using i h0(1) old by (auto simp: dispatcher_inv_def nth_list_update)
      have c: "sorted_wrt (<) (started ?d')"
        using i old by (simp add: dispatcher_inv_def sorted_wrt_append)
      have e: "\<forall>h \<in> set (started ?d'). \<forall>h' < length (states ?d'). states ?d' ! h' = Pending \<longrightarrow> h < h'"
      proof (intro ballI allI impI)
        fix h h'
        assume h: "h \<in> set (started ?d')" and h': "h' < length (states ?d')"
          and p: "states ?d' ! h' = Pending"
        from p h' have ne: "h' \<noteq> h0" by (auto simp: nth_list_update)
        with p h' have p0: "states d ! h' = Pending" by (simp add: nth_list_update)
        show "h < h'"
        proof (cases "h = h0")
          case True
          from p0 h0(3) have "\<not> h' < h0" by auto
          with ne True show ?thesis by simp
        next
          case False
          with h have "h \<in> set (started d)" by simp
          with i h' p0 show ?thesis by (simp add: dispatcher_inv_def)
        qed
      qed
      have f: "\<forall>h \<in> set (backlog ?d'). h < length (states ?d')"
        using i by (simp add: dispatcher_inv_def)
      from a b c e f show ?thesis unfolding eq dispatcher_inv_def by blast
    qed
  qed
qed

lemma inv_finish: "dispatcher_inv d \<Longrightarrow> dispatcher_inv (worker_finish d)"
proof -
  assume i: "dispatcher_inv d"
  show ?thesis
  proof (cases "first_with Running d")
    case None
    with i show ?thesis by (simp add: worker_finish_def)
  next
    case (Some r)
    from first_with_Some [OF Some] have r: "r < length (states d)" "states d ! r = Running"
      by simp_all
    show ?thesis
      using i r Some
      by (auto simp: worker_finish_def dispatcher_inv_def nth_list_update)
  qed
qed

lemma inv_step: "dispatcher_inv d \<Longrightarrow> dispatcher_inv (step ev d)"
  by (cases ev) (simp_all add: inv_submit inv_start inv_finish)

lemma inv_run: "dispatcher_inv d \<Longrightarrow> dispatcher_inv (run evs d)"
  by (induction evs arbitrary: d) (simp_all add: inv_step)

lemma cancelled_evict:
  "status_of d h = Some Cancelled \<Longrightarrow> status_of (evict d) h = Some Cancelled"
  by (auto simp: evict_def Let_def status_of_def nth_list_update split: list.splits if_splits)

lemma cancelled_step:
  assumes "status_of d h = Some Cancelled"
  shows "status_of (step ev d) h = Some Cancelled"
proof (cases ev)
  case Submit
  let ?d1 = "d\<lparr>states := states d @ [Pending], backlog := backlog d @ [length (states d)]\<rparr>"
  have "status_of ?d1 h = Some Cancelled"
    using assms by (auto simp: status_of_def nth_append split: if_splits)
  then show ?thesis
    using cancelled_evict [of ?d1 h] by (simp add: Submit MonoWorker_submit_def Let_def)
next
  case Start
  show ?thesis
  proof (cases "first_with Running d")
    case (Some r)
    with assms show ?thesis by (simp add: Start worker_start_def)
  next
    case None
    show ?thesis
    proof (cases "first_with Pending d")
      case no: None
      with None assms show ?thesis by (simp add: Start worker_start_def)
    next
      case (Some h0)
      from first_with_Some [OF Some] have "states d ! h0 = Pending" by simp
      with assms have "h \<noteq> h0" by (auto simp: status_of_def split: if_splits)
      with assms None Some show ?thesis
        by (auto simp: Start worker_start_def status_of_def nth_list_update split: if_splits)
    qed
  qed
next
  case Finish
  show ?thesis
  proof (cases "first_with Running d")
    case None
    with assms show ?thesis by (simp add: Finish worker_finish_def)
  next
    case (Some r)
    from first_with_Some [OF Some] have "states d ! r = Running" by simp
    with assms have "h \<noteq> r" by (auto simp: status_of_def split: if_splits)
    with assms Some show ?thesis
      by (auto simp: Finish worker_finish_def status_of_def nth_list_update split: if_splits)
  qed
qed

lemma cancelled_run:
  "status_of d h = Some Cancelled \<Longrightarrow> status_of (run evs d) h = Some Cancelled"
  by (induction evs arbitrary: d) (simp_all add: cancelled_step)

lemma cancelled_not_started:
  "dispatcher_inv d \<Longrightarrow> status_of d h = Some Cancelled \<Longrightarrow> h \<notin> set (started d)"
  by (auto simp: dispatcher_inv_def status_of_def split: if_splits)

lemma submit_below_capacity:
  assumes "length (backlog d) < 2"
  shows "backlog (MonoWorker_submit d) = backlog d @ [length (states d)]"
    and "\<forall>h < length (states d). status_of (MonoWorker_submit d) h = status_of d h"
    and "status_of (MonoWorker_submit d) (length (states d)) = Some Pending"
  using assms
  by (auto simp: MonoWorker_submit_def Let_def capacity_def status_of_def nth_append)

lemma submit_at_capacity:
  assumes "length (backlog d) = 2" and "\<forall>h \<in> set (backlog d). h < length (states d)"
  shows "backlog (MonoWorker_submit d) = tl (backlog d) @ [length (states d)]"
    and "status_of d (hd (backlog d)) = Some Pending \<Longrightarrow>
           status_of (MonoWorker_submit d) (hd (backlog d)) = Some Cancelled"
    and "status_of d (hd (backlog d)) \<noteq> Some Pending \<Longrightarrow>
           status_of (MonoWorker_submit d) (hd (backlog d)) = status_of d (hd (backlog d))"
    and "status_of (MonoWorker_submit d) (length (states d)) = Some Pending"
proof -
  obtain a b where ab: "backlog d = [a, b]"
    using assms(1) by (cases "backlog d"; cases "tl (backlog d)") auto
  with assms(2) have a: "a < length (states d)" by simp
  show "backlog (MonoWorker_submit d) = tl (backlog d) @ [length (states d)]"
    using ab by (simp add: MonoWorker_submit_def Let_def capacity_def evict_def)
  show "status_of d (hd (backlog d)) = Some Pending \<Longrightarrow>
           status_of (MonoWorker_submit d) (hd (backlog d)) = Some Cancelled"
    using ab a
    by (simp add: MonoWorker_submit_def Let_def capacity_def evict_def status_of_def nth_append)
  show "status_of d (hd (backlog d)) \<noteq> Some Pending \<Longrightarrow>
           status_of (MonoWorker_submit d) (hd (backlog d)) = status_of d (hd (backlog d))"
    using ab a
    by (simp add: MonoWorker_submit_def Let_def capacity_def evict_def status_of_def nth_append)
  show "status_of (MonoWorker_submit d) (length (states d)) = Some Pending"
    using ab a
    by (simp add: MonoWorker_submit_def Let_def capacity_def evict_def status_of_def nth_append
          nth_list_update)
qed

text \<open>
  Claim C8. In every state \<open>d\<close> that submissions and worker steps, interleaved in any
  order, lead to from a new dispatcher: the backlog holds at most 2 handles; the tasks
  that started did so in submission order; a new submission is pending. When the
  backlog holds fewer than 2 handles a submission appends its handle and changes no
  other task. When it holds 2, a submission pops the oldest handle and appends the
  new one; the popped task is cancelled if it was pending and keeps its status
  otherwise. A cancelled task stays cancelled and is never started, whatever happens
  afterwards.
\<close>

theorem dispatcher_bounded_fifo:
  assumes "d = run evs new_dispatcher"
  shows "length (backlog d) \<le> 2
   \<and> sorted_wrt (<) (started d)
   \<and> status_of (MonoWorker_submit d) (length (states d)) = Some Pending
   \<and> (length (backlog d) < 2 \<longrightarrow>
        backlog (MonoWorker_submit d) = backlog d @ [length (states d)]
        \<and> (\<forall>h < length (states d). status_of (MonoWorker_submit d) h = status_of d h))
   \<and> (length (backlog d) = 2 \<longrightarrow>
        backlog (MonoWorker_submit d) = tl (backlog d) @ [length (states d)]
        \<and> (status_of d (hd (backlog d)) = Some Pending \<longrightarrow>
             status_of (MonoWorker_submit d) (hd (backlog d)) = Some Cancelled)
        \<and> (status_of d (hd (backlog d)) \<noteq> Some Pending \<longrightarrow>
             status_of (MonoWorker_submit d) (hd (backlog d)) = status_of d (hd (backlog d))))
   \<and> (status_of d h = Some Cancelled \<longrightarrow>
        h \<notin> set (started (run evs' d)) \<and> status_of (run evs' d) h = Some Cancelled)"
proof -
  have i: "dispatcher_inv d" using assms inv_new by (simp add: inv_run)
  then have bound: "length (backlog d) \<le> 2" and fifo: "sorted_wrt (<) (started d)"
    and valid: "\<forall>h \<in> set (backlog d). h < length (states d)"
    by (simp_all add: dispatcher_inv_def capacity_def)
  have fresh: "status_of (MonoWorker_submit d) (length (states d)) = Some Pending"
  proof (cases "length (backlog d) = 2")
    case True
    then show ?thesis using valid by (rule submit_at_capacity(4))
  next
    case False
    with bound have "length (backlog d) < 2" by simp
    then show ?thesis by (rule submit_below_capacity(3))
  qed
  have below: "length (backlog d) < 2 \<longrightarrow>
        backlog (MonoWorker_submit d) = backlog d @ [length (states d)]
        \<and> (\<forall>h < length (states d). status_of (MonoWorker_submit d) h = status_of d h)"
    using submit_below_capacity(1,2) [of d] by blast
  have full: "length (backlog d) = 2 \<longrightarrow>
        backlog (MonoWorker_submit d) = tl (backlog d) @ [length (states d)]
        \<and> (status_of d (hd (backlog d)) = Some Pending \<longrightarrow>
             status_of (MonoWorker_submit d) (hd (backlog d)) = Some Cancelled)
        \<and> (status_of d (hd (backlog d)) \<noteq> Some Pending \<longrightarrow>
             status_of (MonoWorker_submit d) (hd (backlog d)) = status_of d (hd (backlog d)))"
    using submit_at_capacity(1,2,3) [of d] valid by blast
  have never: "status_of d h = Some Cancelled \<longrightarrow>
        h \<notin> set (started (run evs' d)) \<and> status_of (run evs' d) h = Some Cancelled"
  proof
    assume c: "status_of d h = Some Cancelled"
    then have c': "status_of (run evs' d) h = Some Cancelled" by (rule cancelled_run)
    have "dispatcher_inv (run evs' d)" using i by (rule inv_run)
    then have "h \<notin> set (started (run evs' d))" using c' by (rule cancelled_not_started)
    with c' show "h \<notin> set (started (run evs' d)) \<and> status_of (run evs' d) h = Some Cancelled"
      by simp
  qed
  from bound fifo fresh below full never show ?thesis by blast
qed

text \<open>
  The theorem on three submissions in a row (the first task is cancelled, the worker
  then runs the second and the third), on a single submission, and on a backlog whose
  oldest task is already running.
\<close>

theorem dispatcher_bounded_fifo_witness:
  "run [Submit, Submit, Submit] new_dispatcher =
     \<lparr>states = [Cancelled, Pending, Pending], backlog = [1, 2], started = []\<rparr>
   \<and> length (backlog (run [Submit, Submit] new_dispatcher)) = 2
   \<and> status_of (run [Submit, Submit] new_dispatcher)
        (hd (backlog (run [Submit, Submit] new_dispatcher))) = Some Pending
   \<and> status_of (MonoWorker_submit (run [Submit, Submit] new_dispatcher))
        (hd (backlog (run [Submit, Submit] new_dispatcher))) = Some Cancelled
   \<and> status_of (run [Submit, Submit, Submit] new_dispatcher) 0 = Some Cancelled
   \<and> 0 \<notin> set (started (run [Start, Finish, Start, Finish] (run [Submit, Submit, Submit] new_dispatcher)))
   \<and> started (run [Start, Finish, Start, Finish] (run [Submit, Submit, Submit] new_dispatcher)) = [1, 2]
   \<and> length (backlog (run [Submit] new_dispatcher)) < 2
   \<and> backlog (MonoWorker_submit (run [Submit] new_dispatcher)) =
        backlog (run [Submit] new_dispatcher) @ [1]
   \<and> length (backlog (run [Submit, Start, Submit] new_dispatcher)) = 2
   \<and> status_of (run [Submit, Start, Submit] new_dispatcher)
        (hd (backlog (run [Submit, Start, Submit] new_dispatcher))) = Some Running
   \<and> status_of (MonoWorker_submit (run [Submit, Start, Submit] new_dispatcher))
        (hd (backlog (run [Submit, Start, Submit] new_dispatcher))) = Some Running"
proof -
  have r3: "run [Submit, Submit, Submit] new_dispatcher =
     \<lparr>states = [Cancelled, Pending, Pending], backlog = [1, 2], started = []\<rparr>"
    by code_simp
  have l2: "length (backlog (run [Submit, Submit] new_dispatcher)) = 2" by code_simp
  have p2: "status_of (run [Submit, Submit] new_dispatcher)
        (hd (backlog (run [Submit, Submit] new_dispatcher))) = Some Pending"
    by code_simp
  have c3: "status_of (run [Submit, Submit, Submit] new_dispatcher) 0 = Some Cancelled"
    by code_simp
  have s7: "started (run [Start, Finish, Start, Finish] (run [Submit, Submit, Submit] new_dispatcher)) = [1, 2]"
    by code_simp
  have l1: "length (backlog (run [Submit] new_dispatcher)) < 2" by code_simp
  have n1: "length (states (run [Submit] new_dispatcher)) = 1" by code_simp
  have lr: "length (backlog (run [Submit, Start, Submit] new_dispatcher)) = 2" by code_simp
  have pr: "status_of (run [Submit, Start, Submit] new_dispatcher)
        (hd (backlog (run [Submit, Start, Submit] new_dispatcher))) = Some Running"
    by code_simp
  note two = dispatcher_bounded_fifo [OF refl, where evs = "[Submit, Submit]"]
  note three = dispatcher_bounded_fifo [OF refl, where evs = "[Submit, Submit, Submit]"
      and h = 0 and evs' = "[Start, Finish, Start, Finish]"]
  note one = dispatcher_bounded_fifo [OF refl, where evs = "[Submit]"]
  note busy = dispatcher_bounded_fifo [OF refl, where evs = "[Submit, Start, Submit]"]
  have a: "status_of (MonoWorker_submit (run [Submit, Submit] new_dispatcher))
        (hd (backlog (run [Submit, Submit] new_dispatcher))) = Some Cancelled"
    using two l2 p2 by blast
  have b: "0 \<notin> set (started (run [Start, Finish, Start, Finish] (run [Submit, Submit, Submit] new_dispatcher)))"
    using three c3 by blast
  have c: "backlog (MonoWorker_submit (run [Submit] new_dispatcher)) =
        backlog (run [Submit] new_dispatcher) @ [1]"
    using one l1 n1 by metis
  have d: "status_of (MonoWorker_submit (run [Submit, Start, Submit] new_dispatcher))
        (hd (backlog (run [Submit, Start, Submit] new_dispatcher))) = Some Running"
    using busy lr pr by (metis option.inject status.distinct(1))
  from r3 l2 p2 a c3 b s7 l1 c lr pr d show ?thesis by blast
qed

end
